theory Spec2Isabelle
  imports Main
begin

section \<open>JavaScript values, truthiness and failures\<close>

text \<open>
  The two source files are TypeScript. A thrown exception (and, for the asynchronous
  \<open>load\<close>, a rejected promise) is the left summand of a result; the three kinds that the
  code can raise itself are \<open>Error\<close> with its message, the \<open>TypeError\<close> of a property read
  on \<open>undefined\<close>, and the \<open>AssertionError\<close> of \<open>assert\<close> with its message.
  References to functions and objects of the host or of a plugin (constructors, platform
  instances, initializers, callbacks) are opaque identities.
\<close>

datatype js_error = Error string | TypeError | AssertionError string

type_synonym ref = nat

text \<open>
  An optional string is \<open>None\<close> when the property is \<open>undefined\<close>. JavaScript's
  \<open>if (s)\<close>, \<open>!s\<close> and \<open>a || b\<close> treat \<open>undefined\<close> and the empty string alike as false.
\<close>

definition truthy :: "string option \<Rightarrow> bool" where
  "truthy v = (case v of None \<Rightarrow> False | Some s \<Rightarrow> s \<noteq> [])"

definition js_or :: "string option \<Rightarrow> string option \<Rightarrow> string option" where
  "js_or a b = (if truthy a then a else b)"

definition quoted :: "string \<Rightarrow> string" where
  "quoted s = [CHR 0x27] @ s @ [CHR 0x27]"

definition endsWith :: "string \<Rightarrow> string \<Rightarrow> bool" where
  "endsWith s suf = (length suf \<le> length s \<and> drop (length s - length suf) s = suf)"

section \<open>The manifest (\<open>PackageJSON\<close>)\<close>

text \<open>
  \<open>exports\<close> is a string or a table whose values are strings or tables of strings; every
  other field the constructor reads is optional. An object is always truthy, also when it
  has no keys.
\<close>

datatype export_target = Path string | Conditions "string \<rightharpoonup> string"

datatype exports_field = ExportsString string | ExportsTable "string \<rightharpoonup> export_target"

record PackageJSON =
  pkg_version :: "string option"
  pkg_exports :: "exports_field option"
  pkg_main :: "string option"
  pkg_type :: "string option"
  pkg_engines :: "(string \<rightharpoonup> string) option"
  pkg_dependencies :: "(string \<rightharpoonup> string) option"
  pkg_peerDependencies :: "(string \<rightharpoonup> string) option"

definition truthy_exports :: "exports_field option \<Rightarrow> bool" where
  "truthy_exports v =
     (case v of None \<Rightarrow> False | Some (ExportsString s) \<Rightarrow> s \<noteq> [] | Some (ExportsTable t) \<Rightarrow> True)"

definition truthy_target :: "export_target option \<Rightarrow> bool" where
  "truthy_target v =
     (case v of None \<Rightarrow> False | Some (Path s) \<Rightarrow> s \<noteq> [] | Some (Conditions c) \<Rightarrow> True)"

definition target_or :: "export_target option \<Rightarrow> export_target option \<Rightarrow> export_target option" where
  "target_or a b = (if truthy_target a then a else b)"

section \<open>Entry-point resolution (the constructor of \<open>Plugin\<close>, lines 61 to 89)\<close>

text \<open>
  \<open>exports.import || exports.require || exports.node || exports.default || exports["."]\<close>,
  associated to the left as JavaScript does.
\<close>

definition select_export :: "(string \<rightharpoonup> export_target) \<Rightarrow> export_target option" where
  "select_export t =
     target_or (target_or (target_or (target_or (t ''import'') (t ''require'')) (t ''node''))
       (t ''default'')) (t ''.'')"

text \<open>The nested case: \<open>exports.import\<close> if truthy, else \<open>exports.require || exports.node || exports.default\<close>.\<close>

definition nested_main :: "(string \<rightharpoonup> string) \<Rightarrow> string option" where
  "nested_main c =
     (if truthy (c ''import'') then c ''import''
      else js_or (js_or (c ''require'') (c ''node'')) (c ''default''))"

text \<open>
  The value of \<open>this.main\<close> after the \<open>exports\<close> block. It starts as the empty string.
  When the table selects nothing, \<open>exports\<close> is \<open>undefined\<close>, its type is not
  \<open>"string"\<close>, and reading \<open>exports.import\<close> throws.
\<close>

definition exports_main :: "PackageJSON \<Rightarrow> js_error + string option" where
  "exports_main packageJSON =
     (if truthy_exports (pkg_exports packageJSON) then
        (case pkg_exports packageJSON of
           None \<Rightarrow> Inr (Some [])
         | Some (ExportsString s) \<Rightarrow> Inr (Some s)
         | Some (ExportsTable t) \<Rightarrow>
             (case select_export t of
                None \<Rightarrow> Inl TypeError
              | Some (Path s) \<Rightarrow> Inr (Some s)
              | Some (Conditions c) \<Rightarrow> Inr (nested_main c)))
      else Inr (Some []))"

text \<open>\<open>packageJSON.main || "./index.js"\<close>.\<close>

definition fallback_main :: "PackageJSON \<Rightarrow> string" where
  "fallback_main packageJSON =
     (case js_or (pkg_main packageJSON) (Some ''./index.js'') of
        None \<Rightarrow> ''./index.js'' | Some s \<Rightarrow> s)"

definition resolve_main :: "PackageJSON \<Rightarrow> js_error + string" where
  "resolve_main packageJSON =
     (case exports_main packageJSON of
        Inl e \<Rightarrow> Inl e
      | Inr m \<Rightarrow>
          (if \<not> truthy m then Inr (fallback_main packageJSON)
           else (case m of None \<Rightarrow> Inr (fallback_main packageJSON) | Some s \<Rightarrow> Inr s)))"

section \<open>The plugin descriptor\<close>

record load_context =
  engines :: "(string \<rightharpoonup> string) option"
  dependencies :: "(string \<rightharpoonup> string) option"

record Plugin =
  pluginName :: string
  scope :: "string option"
  pluginPath :: string
  isESM :: bool
  disabled :: bool
  version :: string
  main :: string
  loadContext :: "load_context option"
  pluginInitializer :: "ref option"
  registeredAccessories :: "string \<rightharpoonup> ref"
  registeredPlatforms :: "string \<rightharpoonup> ref"
  activeDynamicPlatforms :: "string \<rightharpoonup> ref list"

text \<open>
  What the code does to the world outside the descriptor: the lines it hands to the
  logger, and the module paths it imports, in order.
\<close>

datatype log_entry = LogInfo string | LogWarn string | LogError string

record host =
  log_lines :: "log_entry list"
  imported :: "string list"

text \<open>
  The compatibility shim of lines 94 to 98, which edits the manifest in place:
  assigning \<open>undefined\<close> to \<open>engines.homebridge\<close> reads back like an absent key.
\<close>

definition shim_engines :: "PackageJSON \<Rightarrow> PackageJSON" where
  "shim_engines packageJSON =
     (case pkg_peerDependencies packageJSON of
        None \<Rightarrow> packageJSON
      | Some peers \<Rightarrow>
          (if (case pkg_engines packageJSON of None \<Rightarrow> True | Some e \<Rightarrow> \<not> truthy (e ''homebridge''))
           then packageJSON\<lparr>pkg_engines :=
                  Some ((case pkg_engines packageJSON of None \<Rightarrow> Map.empty | Some e \<Rightarrow> e)
                          (''homebridge'' := peers ''homebridge''))\<rparr>
           else packageJSON))"

definition Plugin_new :: "string \<Rightarrow> string \<Rightarrow> PackageJSON \<Rightarrow> string option \<Rightarrow> js_error + Plugin" where
  "Plugin_new name path packageJSON scp =
     (case resolve_main packageJSON of
        Inl e \<Rightarrow> Inl e
      | Inr m \<Rightarrow>
          (let shimmed = shim_engines packageJSON in
           Inr \<lparr>pluginName = name,
                scope = scp,
                pluginPath = path,
                isESM = (endsWith m ''.mjs'' \<or> (endsWith m ''.js'' \<and> pkg_type packageJSON = Some ''module'')),
                disabled = False,
                version = (case js_or (pkg_version packageJSON) (Some ''0.0.0'') of
                             None \<Rightarrow> ''0.0.0'' | Some v \<Rightarrow> v),
                main = m,
                loadContext = Some \<lparr>engines = pkg_engines shimmed,
                                     dependencies = pkg_dependencies shimmed\<rparr>,
                pluginInitializer = None,
                registeredAccessories = Map.empty,
                registeredPlatforms = Map.empty,
                activeDynamicPlatforms = Map.empty\<rparr>))"

definition getPluginIdentifier :: "Plugin \<Rightarrow> string" where
  "getPluginIdentifier p =
     (if truthy (scope p) then (case scope p of None \<Rightarrow> [] | Some s \<Rightarrow> s @ ''/'') else []) @ pluginName p"

definition getPluginPath :: "Plugin \<Rightarrow> string" where
  "getPluginPath p = pluginPath p"

section \<open>Factory registries\<close>

definition duplicate_accessory :: "Plugin \<Rightarrow> string \<Rightarrow> js_error" where
  "duplicate_accessory p name =
     Error (''Plugin '' @ quoted (getPluginIdentifier p) @ '' tried to register an accessory ''
            @ quoted name @ '' which has already been registered!'')"

definition duplicate_platform :: "Plugin \<Rightarrow> string \<Rightarrow> js_error" where
  "duplicate_platform p name =
     Error (''Plugin '' @ quoted (getPluginIdentifier p) @ '' tried to register a platform ''
            @ quoted name @ '' which has already been registered!'')"

definition registerAccessory ::
  "Plugin \<Rightarrow> string \<Rightarrow> ref \<Rightarrow> host \<Rightarrow> (js_error + unit) \<times> Plugin \<times> host" where
  "registerAccessory p name ctor h =
     (if registeredAccessories p name \<noteq> None then (Inl (duplicate_accessory p name), p, h)
      else
        (let h' = (if \<not> disabled p
                   then h\<lparr>log_lines := log_lines h @
                          [LogInfo (''Registering accessory '' @ quoted (getPluginIdentifier p @ ''.'' @ name))]\<rparr>
                   else h)
         in (Inr (), p\<lparr>registeredAccessories := (registeredAccessories p)(name \<mapsto> ctor)\<rparr>, h')))"

definition registerPlatform ::
  "Plugin \<Rightarrow> string \<Rightarrow> ref \<Rightarrow> host \<Rightarrow> (js_error + unit) \<times> Plugin \<times> host" where
  "registerPlatform p name ctor h =
     (if registeredPlatforms p name \<noteq> None then (Inl (duplicate_platform p name), p, h)
      else
        (let h' = (if \<not> disabled p
                   then h\<lparr>log_lines := log_lines h @
                          [LogInfo (''Registering platform '' @ quoted (getPluginIdentifier p @ ''.'' @ name))]\<rparr>
                   else h)
         in (Inr (), p\<lparr>registeredPlatforms := (registeredPlatforms p)(name \<mapsto> ctor)\<rparr>, h')))"

section \<open>What the descriptor uses from outside\<close>

text \<open>
  \<open>PluginManager.getAccessoryName\<close> and \<open>getPlatformName\<close> (which turn an identifier into a
  bare name), \<open>semver\<close>'s \<open>satisfies\<close> (version, range, whether prereleases are included),
  the running versions, the path functions and the two module loaders are not part of
  the two files; they are parameters. A loader returns what the module exports or fails.
  \<open>call\<close> is the invocation of a function reference on one argument: the initializer runs
  plugin code, which may register factories on the descriptor and log.
\<close>

datatype module_exports =
    ModuleFunction ref
  | ModuleObject "ref option"
  | ModuleOther

text \<open>
  \<open>ModuleFunction f\<close>: the imported value is itself a function. \<open>ModuleObject d\<close>: it is
  another truthy value, and \<open>d\<close> is its \<open>default\<close> property when that is a function.
  \<open>ModuleOther\<close>: it is \<open>null\<close>, \<open>undefined\<close> or another falsy value.
\<close>

record ('api, 'r) plugin_env =
  getAccessoryName :: "string \<Rightarrow> string"
  getPlatformName :: "string \<Rightarrow> string"
  satisfies :: "string \<Rightarrow> string \<Rightarrow> bool \<Rightarrow> bool"
  getVersion :: string
  process_version :: string
  path_join :: "string \<Rightarrow> string \<Rightarrow> string"
  pathToFileURL :: "string \<Rightarrow> string"
  importDynamic :: "string \<Rightarrow> js_error + module_exports"
  require :: "string \<Rightarrow> js_error + module_exports"
  call :: "ref \<Rightarrow> 'api \<Rightarrow> Plugin \<Rightarrow> host \<Rightarrow> (js_error + 'r) \<times> Plugin \<times> host"

definition dquoted :: "string \<Rightarrow> string" where
  "dquoted s = [CHR 0x22] @ s @ [CHR 0x22]"

definition str_of :: "string option \<Rightarrow> string" where
  "str_of v = (case v of None \<Rightarrow> ''undefined'' | Some s \<Rightarrow> s)"

section \<open>Lookups and dynamic platforms\<close>

definition getAccessoryConstructor ::
  "('api, 'r) plugin_env \<Rightarrow> Plugin \<Rightarrow> string \<Rightarrow> js_error + ref" where
  "getAccessoryConstructor env p accessoryIdentifier =
     (let name = getAccessoryName env accessoryIdentifier in
      case registeredAccessories p name of
        None \<Rightarrow> Inl (Error (''The requested accessory '' @ quoted name
                 @ '' was not registered by the plugin '' @ quoted (getPluginIdentifier p) @ ''.''))
      | Some ctor \<Rightarrow> Inr ctor)"

definition getPlatformConstructor ::
  "('api, 'r) plugin_env \<Rightarrow> Plugin \<Rightarrow> string \<Rightarrow> host \<Rightarrow> (js_error + ref) \<times> host" where
  "getPlatformConstructor env p platformIdentifier h =
     (let name = getPlatformName env platformIdentifier in
      case registeredPlatforms p name of
        None \<Rightarrow> (Inl (Error (''The requested platform '' @ quoted name
                 @ '' was not registered by the plugin '' @ quoted (getPluginIdentifier p) @ ''.'')), h)
      | Some ctor \<Rightarrow>
          (Inr ctor,
           if activeDynamicPlatforms p name \<noteq> None
           then h\<lparr>log_lines := log_lines h @
                  [LogError (''The dynamic platform '' @ name @ '' from the plugin '' @ getPluginIdentifier p
                     @ '' seems to be configured multiple times in your config.json. This behaviour was ''
                     @ ''deprecated in homebridge v1.0.0 and will be removed in v2.0.0!'')]\<rparr>
           else h))"

text \<open>
  \<open>unshift\<close> on the array stored under the name: the new instance goes first. An array is
  truthy also when empty, so only a missing entry starts a new array.
\<close>

definition assignDynamicPlatform ::
  "('api, 'r) plugin_env \<Rightarrow> Plugin \<Rightarrow> string \<Rightarrow> ref \<Rightarrow> Plugin" where
  "assignDynamicPlatform env p platformIdentifier platformPlugin =
     (let name = getPlatformName env platformIdentifier;
          platforms = (case activeDynamicPlatforms p name of None \<Rightarrow> [] | Some ps \<Rightarrow> ps)
      in p\<lparr>activeDynamicPlatforms := (activeDynamicPlatforms p)(name \<mapsto> platformPlugin # platforms)\<rparr>)"

text \<open>\<open>platforms && platforms[0]\<close>: index 0 of an empty array is \<open>undefined\<close>.\<close>

definition getActiveDynamicPlatform :: "Plugin \<Rightarrow> string \<Rightarrow> ref option" where
  "getActiveDynamicPlatform p platformName =
     (case activeDynamicPlatforms p platformName of
        None \<Rightarrow> None
      | Some [] \<Rightarrow> None
      | Some (x # _) \<Rightarrow> Some x)"

fun assign_all :: "('api, 'r) plugin_env \<Rightarrow> Plugin \<Rightarrow> (string \<times> ref) list \<Rightarrow> Plugin" where
  "assign_all env p [] = p"
| "assign_all env p ((i, x) # rest) = assign_all env (assignDynamicPlatform env p i x) rest"

section \<open>Loading and initializing\<close>

text \<open>
  \<open>context.engines\<close> may be \<open>undefined\<close>: \<open>!context.engines || !context.engines.homebridge\<close>
  is \<open>\<not> truthy (engine context ''homebridge'')\<close>.
\<close>

definition engine :: "load_context \<Rightarrow> string \<Rightarrow> string option" where
  "engine context k = (case engines context of None \<Rightarrow> None | Some e \<Rightarrow> e k)"

definition dependency :: "load_context \<Rightarrow> string \<Rightarrow> string option" where
  "dependency context k = (case dependencies context of None \<Rightarrow> None | Some d \<Rightarrow> d k)"

definition missing_engine :: "Plugin \<Rightarrow> js_error" where
  "missing_engine p =
     Error (''Plugin '' @ pluginPath p @ '' does not contain the 'homebridge' package in 'engines'.'')"

definition no_initializer :: "Plugin \<Rightarrow> js_error" where
  "no_initializer p =
     Error (''Plugin '' @ pluginPath p @ '' does not export a initializer function from main.'')"

definition illegal_state :: js_error where
  "illegal_state = AssertionError ''Reached illegal state. Plugin state is undefined!''"

definition not_loaded :: js_error where
  "not_loaded = Error ''Tried to initialize a plugin which hasn't been loaded yet!''"

text \<open>The three checks that only log (lines 198 to 217).\<close>

definition version_checks ::
  "('api, 'r) plugin_env \<Rightarrow> Plugin \<Rightarrow> load_context \<Rightarrow> host \<Rightarrow> host" where
  "version_checks env p context h =
     (let versionRequired = str_of (engine context ''homebridge'');
          nodeVersionRequired = engine context ''node'';
          h1 = (if \<not> satisfies env (getVersion env) versionRequired True
                then h\<lparr>log_lines := log_lines h @
                       [LogError (''The plugin '' @ dquoted (pluginName p) @ '' requires a Homebridge version of ''
                          @ versionRequired @ '' which does not satisfy the current Homebridge version of ''
                          @ getVersion env @ ''. You may need to update this plugin (or Homebridge) to a newer version. ''
                          @ ''You may face unexpected issues or stability problems running this plugin.'')]\<rparr>
                else h);
          h2 = (if truthy nodeVersionRequired
                     \<and> \<not> satisfies env (process_version env) (str_of nodeVersionRequired) False
                then h1\<lparr>log_lines := log_lines h1 @
                       [LogWarn (''The plugin '' @ dquoted (pluginName p) @ '' requires Node.js version of ''
                          @ str_of nodeVersionRequired @ '' which does not satisfy the current Node.js version of ''
                          @ process_version env @ ''. You may need to upgrade your installation of Node.js - ''
                          @ ''see https://homebridge.io/w/JTKEF'')]\<rparr>
                else h1)
      in (if truthy (dependency context ''homebridge'') \<or> truthy (dependency context ''hap-nodejs'')
          then h2\<lparr>log_lines := log_lines h2 @
                 [LogError (''The plugin '' @ dquoted (pluginName p)
                    @ '' defines 'homebridge' and/or 'hap-nodejs' in their 'dependencies' section, ''
                    @ ''meaning they carry an additional copy of homebridge and hap-nodejs. This not only wastes ''
                    @ ''disk space, but also can cause major incompatibility issues and thus is considered bad ''
                    @ ''practice. Please inform the developer to update their plugin!'')]\<rparr>
          else h2))"

text \<open>The import (line 228) and the extraction of the initializer (lines 230 to 236).\<close>

definition import_main ::
  "('api, 'r) plugin_env \<Rightarrow> Plugin \<Rightarrow> host \<Rightarrow> (js_error + unit) \<times> Plugin \<times> host" where
  "import_main env p h =
     (let mainPath = path_join env (pluginPath p) (main p);
          target = (if isESM p then pathToFileURL env mainPath else mainPath);
          h' = h\<lparr>imported := imported h @ [target]\<rparr>
      in case (if isESM p then importDynamic env target else require env target) of
           Inl e \<Rightarrow> (Inl e, p, h')
         | Inr (ModuleFunction f) \<Rightarrow> (Inr (), p\<lparr>pluginInitializer := Some f\<rparr>, h')
         | Inr (ModuleObject (Some f)) \<Rightarrow> (Inr (), p\<lparr>pluginInitializer := Some f\<rparr>, h')
         | Inr (ModuleObject None) \<Rightarrow> (Inl (no_initializer p), p, h')
         | Inr ModuleOther \<Rightarrow> (Inl (no_initializer p), p, h'))"

text \<open>
  \<open>load\<close>: the context is read, asserted and at once set to \<open>undefined\<close> (line 188), before
  any check. It is asynchronous; a failure is the rejection of its promise.
\<close>

definition load ::
  "('api, 'r) plugin_env \<Rightarrow> Plugin \<Rightarrow> host \<Rightarrow> (js_error + unit) \<times> Plugin \<times> host" where
  "load env p h =
     (case loadContext p of
        None \<Rightarrow> (Inl illegal_state, p, h)
      | Some context \<Rightarrow>
          (let p1 = p\<lparr>loadContext := None\<rparr> in
           if \<not> truthy (engine context ''homebridge'') then (Inl (missing_engine p1), p1, h)
           else import_main env p1 (version_checks env p1 context h)))"

definition initialize ::
  "('api, 'r) plugin_env \<Rightarrow> Plugin \<Rightarrow> 'api \<Rightarrow> host \<Rightarrow> (js_error + 'r) \<times> Plugin \<times> host" where
  "initialize env p api h =
     (case pluginInitializer p of
        None \<Rightarrow> (Inl not_loaded, p, h)
      | Some f \<Rightarrow> call env f api p h)"

section \<open>The accessory handle and its delegate\<close>

text \<open>
  Values that cross the persistence boundary are JSON-like JavaScript values. A
  serialized accessory is a flat object: a finite map from keys to values, where a key
  may be present with the value \<open>undefined\<close>. Reading a missing key gives \<open>undefined\<close>, and
  in an object literal a later spread overwrites an earlier key of the same name.
\<close>

datatype jsval =
    JUndefined
  | JNull
  | JBool bool
  | JNumber int
  | JString string
  | JArray "jsval list"
  | JObject "(string \<times> jsval) list"

type_synonym json_record = "string \<rightharpoonup> jsval"

definition field :: "json_record \<Rightarrow> string \<Rightarrow> jsval" where
  "field json k = (case json k of None \<Rightarrow> JUndefined | Some v \<Rightarrow> v)"

text \<open>
  The delegate is HAP-NodeJS's \<open>Accessory\<close>: the identity fields and the service list that
  the handle reads and writes, and the rest of its state, which the handle never looks at.
  \<open>Categories\<close> is a numeric enumeration of that library, in which \<open>OTHER\<close> is 1; zero is
  the only falsy number among the integers.
\<close>

record Accessory =
  acc_displayName :: string
  acc_UUID :: string
  acc_category :: int
  acc_services :: "ref list"
  acc_internal :: jsval

definition Categories_OTHER :: int where
  "Categories_OTHER = 1"

text \<open>
  The fields of the handle are public and assignable. \<open>associatedPlugin\<close>,
  \<open>associatedPlatform\<close>, \<open>context\<close> and \<open>category\<close> are assigned from a persisted record
  without any check, so they hold whatever value the record has; the source names the
  first three with a leading underscore. \<open>listeners\<close> is the state the handle inherits
  from \<open>EventEmitter\<close>: the registered pairs of event name and listener, oldest first.
\<close>

record PlatformAccessory =
  associatedPlugin :: jsval
  associatedPlatform :: jsval
  associatedHAPAccessory :: Accessory
  displayName :: string
  UUID :: string
  category :: jsval
  services :: "ref list"
  reachable :: bool
  "context" :: jsval
  listeners :: "(string \<times> ref) list"

text \<open>The static field of the class: the single slot through which a delegate is injected.\<close>

record statics =
  injectedAccessory :: "Accessory option"

text \<open>
  From HAP-NodeJS, as parameters: the constructor of the delegate (which may refuse its
  arguments), its \<open>serialize\<close> (taken to return) and its \<open>deserialize\<close> (which may
  reject a record), and what a listener
  does when it is called with the arguments of an event: it returns (\<open>None\<close>) or throws.
\<close>

datatype js_arg = ArgBool bool | ArgEmptyCallback

record hap_env =
  new_Accessory :: "string \<Rightarrow> string \<Rightarrow> js_error + Accessory"
  Accessory_serialize :: "Accessory \<Rightarrow> json_record"
  Accessory_deserialize :: "json_record \<Rightarrow> js_error + Accessory"
  run_listener :: "ref \<Rightarrow> js_arg list \<Rightarrow> js_error option"

text \<open>
  The constructor (lines 68 to 81). With the slot occupied the delegate is the injected
  one and \<open>new Accessory\<close> is not called. \<open>if (category)\<close> and \<open>category || Categories.OTHER\<close>
  test an optional number.
\<close>

definition PlatformAccessory_new ::
  "hap_env \<Rightarrow> statics \<Rightarrow> string \<Rightarrow> string \<Rightarrow> int option \<Rightarrow> js_error + PlatformAccessory" where
  "PlatformAccessory_new env st name uuid cat =
     (case (case injectedAccessory st of
              Some injected \<Rightarrow> Inr injected
            | None \<Rightarrow> new_Accessory env name uuid) of
        Inl e \<Rightarrow> Inl e
      | Inr created \<Rightarrow>
          (let hap = (case cat of
                        Some c \<Rightarrow> (if c \<noteq> 0 then created\<lparr>acc_category := c\<rparr> else created)
                      | None \<Rightarrow> created)
           in Inr \<lparr>associatedPlugin = JUndefined,
                   associatedPlatform = JUndefined,
                   associatedHAPAccessory = hap,
                   displayName = acc_displayName hap,
                   UUID = acc_UUID hap,
                   category = JNumber (case cat of
                                         Some c \<Rightarrow> (if c \<noteq> 0 then c else Categories_OTHER)
                                       | None \<Rightarrow> Categories_OTHER),
                   services = acc_services hap,
                   reachable = False,
                   context = JObject [],
                   listeners = []\<rparr>))"

definition updateDisplayName :: "PlatformAccessory \<Rightarrow> string \<Rightarrow> PlatformAccessory" where
  "updateDisplayName accessory name =
     (if name \<noteq> []
      then accessory\<lparr>displayName := name,
                     associatedHAPAccessory := (associatedHAPAccessory accessory)\<lparr>acc_displayName := name\<rparr>\<rparr>
      else accessory)"

definition updateReachability :: "PlatformAccessory \<Rightarrow> bool \<Rightarrow> PlatformAccessory" where
  "updateReachability accessory r = accessory\<lparr>reachable := r\<rparr>"

subsection \<open>Identify forwarding\<close>

text \<open>
  \<open>EventEmitter\<close>: \<open>on\<close> appends a listener; \<open>emit\<close> calls the listeners of the event in order
  of registration with the arguments of the emission, stops at the first one that throws
  and lets that exception through, and otherwise returns whether there was a listener.
  The trace keeps what happened, in order: an emission with its arguments, each call of
  a listener, and each invocation of a completion callback.
\<close>

datatype action =
    Emitted string "js_arg list"
  | Delivered ref "js_arg list"
  | Invoked ref

definition on :: "PlatformAccessory \<Rightarrow> string \<Rightarrow> ref \<Rightarrow> PlatformAccessory" where
  "on accessory event listener = accessory\<lparr>listeners := listeners accessory @ [(event, listener)]\<rparr>"

fun deliver :: "hap_env \<Rightarrow> ref list \<Rightarrow> js_arg list \<Rightarrow> action list \<Rightarrow> js_error option \<times> action list" where
  "deliver env [] args t = (None, t)"
| "deliver env (l # ls) args t =
     (case run_listener env l args of
        Some e \<Rightarrow> (Some e, t @ [Delivered l args])
      | None \<Rightarrow> deliver env ls args (t @ [Delivered l args]))"

definition listeners_of :: "PlatformAccessory \<Rightarrow> string \<Rightarrow> ref list" where
  "listeners_of accessory event = map snd (filter (\<lambda>(e, l). e = event) (listeners accessory))"

definition emit ::
  "hap_env \<Rightarrow> PlatformAccessory \<Rightarrow> string \<Rightarrow> js_arg list \<Rightarrow> action list \<Rightarrow> (js_error + bool) \<times> action list" where
  "emit env accessory event args t =
     (let ls = listeners_of accessory event in
      case deliver env ls args (t @ [Emitted event args]) of
        (Some e, t') \<Rightarrow> (Inl e, t')
      | (None, t') \<Rightarrow> (Inr (ls \<noteq> []), t'))"

text \<open>
  The listener that the constructor registers on the delegate for its identify
  notification (lines 84 to 90): it emits \<open>identify\<close> on the handle with the pairing flag
  and an empty callback, then calls the completion callback it was given. What that
  callback does once it is called is its own.
\<close>

definition forward_identify ::
  "hap_env \<Rightarrow> PlatformAccessory \<Rightarrow> bool \<Rightarrow> ref \<Rightarrow> action list \<Rightarrow> (js_error + unit) \<times> action list" where
  "forward_identify env accessory paired callback t =
     (case emit env accessory ''identify'' [ArgBool paired, ArgEmptyCallback] t of
        (Inl e, t') \<Rightarrow> (Inl e, t')
      | (Inr _, t') \<Rightarrow> (Inr (), t' @ [Invoked callback]))"

text \<open>
  The listeners that an emission reaches: those registered for the event, in order, up to
  and including the first one that throws.
\<close>

fun reached :: "hap_env \<Rightarrow> ref list \<Rightarrow> js_arg list \<Rightarrow> ref list" where
  "reached env [] args = []"
| "reached env (l # ls) args =
     l # (case run_listener env l args of Some e \<Rightarrow> [] | None \<Rightarrow> reached env ls args)"

subsection \<open>Serialization\<close>

text \<open>
  \<open>serialize\<close> writes the display name of the handle into the delegate, then builds the
  object literal: the three keys of the handle first, the spread of the delegate's own
  serialization after them. \<open>++\<close> is the union of maps in which the right operand wins.
\<close>

definition serialize :: "hap_env \<Rightarrow> PlatformAccessory \<Rightarrow> json_record \<times> PlatformAccessory" where
  "serialize env accessory =
     (let hap = (associatedHAPAccessory accessory)\<lparr>acc_displayName := displayName accessory\<rparr>
      in ([''plugin'' \<mapsto> associatedPlugin accessory,
           ''platform'' \<mapsto> associatedPlatform accessory,
           ''context'' \<mapsto> context accessory] ++ Accessory_serialize env hap,
          accessory\<lparr>associatedHAPAccessory := hap\<rparr>))"

text \<open>
  \<open>deserialize\<close> (lines 180 to 193). An exception of the constructor would leave before
  the slot is cleared; that branch is written out as the source has it.
\<close>

definition deserialize ::
  "hap_env \<Rightarrow> statics \<Rightarrow> json_record \<Rightarrow> (js_error + PlatformAccessory) \<times> statics" where
  "deserialize env st json =
     (case Accessory_deserialize env json of
        Inl e \<Rightarrow> (Inl e, st)
      | Inr accessory \<Rightarrow>
          (let st1 = st\<lparr>injectedAccessory := Some accessory\<rparr> in
           case PlatformAccessory_new env st1 (acc_displayName accessory) (acc_UUID accessory) None of
             Inl e \<Rightarrow> (Inl e, st1)
           | Inr platformAccessory \<Rightarrow>
               (Inr (platformAccessory\<lparr>associatedPlugin := field json ''plugin'',
                                       associatedPlatform := field json ''platform'',
                                       context := field json ''context'',
                                       category := field json ''category''\<rparr>),
                st1\<lparr>injectedAccessory := None\<rparr>)))"

text \<open>
  A client of the class constructs handles and rehydrates records, in any order; the
  slot after a sequence of such calls, whether each one returned or threw.
\<close>

datatype accessory_call =
    Construct string string "int option"
  | Deserialize json_record

fun after_call :: "hap_env \<Rightarrow> statics \<Rightarrow> accessory_call \<Rightarrow> statics" where
  "after_call env st (Construct name uuid cat) = st"
| "after_call env st (Deserialize json) = snd (deserialize env st json)"

fun after_calls :: "hap_env \<Rightarrow> statics \<Rightarrow> accessory_call list \<Rightarrow> statics" where
  "after_calls env st [] = st"
| "after_calls env st (c # cs) = after_calls env (after_call env st c) cs"

subsection \<open>What the round trip needs from the delegate and from the handle\<close>

text \<open>
  The delegate whose serialization \<open>serialize\<close> takes: the one of the handle, with the
  display name of the handle written into it.
\<close>

definition renamed_delegate :: "PlatformAccessory \<Rightarrow> Accessory" where
  "renamed_delegate accessory =
     (associatedHAPAccessory accessory)\<lparr>acc_displayName := displayName accessory\<rparr>"

text \<open>
  The delegate's own serialization has none of the three keys of the handle (its declared
  type, \<open>SerializedAccessory\<close>, has none of them).
\<close>

definition delegate_keys_disjoint :: "hap_env \<Rightarrow> PlatformAccessory \<Rightarrow> bool" where
  "delegate_keys_disjoint env accessory =
     (Accessory_serialize env (renamed_delegate accessory) ''plugin'' = None
      \<and> Accessory_serialize env (renamed_delegate accessory) ''platform'' = None
      \<and> Accessory_serialize env (renamed_delegate accessory) ''context'' = None)"

text \<open>
  The delegate's own round trip, on the record that \<open>serialize\<close> builds for the handle: its
  serialization keeps the category under the key \<open>category\<close>, and its \<open>deserialize\<close> gives
  back a delegate with the same display name, UUID and category.
\<close>

definition delegate_round_trips :: "hap_env \<Rightarrow> PlatformAccessory \<Rightarrow> bool" where
  "delegate_round_trips env accessory =
     (Accessory_serialize env (renamed_delegate accessory) ''category''
        = Some (JNumber (acc_category (renamed_delegate accessory)))
      \<and> (case Accessory_deserialize env (fst (serialize env accessory)) of
            Inl e \<Rightarrow> False
          | Inr hap \<Rightarrow>
              acc_displayName hap = acc_displayName (renamed_delegate accessory)
              \<and> acc_UUID hap = acc_UUID (renamed_delegate accessory)
              \<and> acc_category hap = acc_category (renamed_delegate accessory)))"

text \<open>The mirrored UUID and category of the handle agree with its delegate.\<close>

definition mirror_in_sync :: "PlatformAccessory \<Rightarrow> bool" where
  "mirror_in_sync accessory =
     (UUID accessory = acc_UUID (associatedHAPAccessory accessory)
      \<and> category accessory = JNumber (acc_category (associatedHAPAccessory accessory)))"

section \<open>The host's use of a descriptor\<close>

text \<open>
  What the manifest itself says under \<open>engines\<close> and under \<open>peerDependencies\<close>, before the
  constructor's shim; and the sequence the host runs for one plugin: construct the
  descriptor, then load it.
\<close>

definition manifest_engine :: "PackageJSON \<Rightarrow> string \<Rightarrow> string option" where
  "manifest_engine packageJSON k = (case pkg_engines packageJSON of None \<Rightarrow> None | Some e \<Rightarrow> e k)"

definition manifest_peer :: "PackageJSON \<Rightarrow> string \<Rightarrow> string option" where
  "manifest_peer packageJSON k = (case pkg_peerDependencies packageJSON of None \<Rightarrow> None | Some d \<Rightarrow> d k)"

definition construct_and_load ::
  "('api, 'r) plugin_env \<Rightarrow> string \<Rightarrow> string \<Rightarrow> PackageJSON \<Rightarrow> string option \<Rightarrow> host
     \<Rightarrow> (js_error + unit) \<times> Plugin option \<times> host" where
  "construct_and_load env name path packageJSON scp h =
     (case Plugin_new name path packageJSON scp of
        Inl e \<Rightarrow> (Inl e, None, h)
      | Inr p \<Rightarrow> (case load env p h of (r, p', h') \<Rightarrow> (r, Some p', h')))"

section \<open>The entry point in the words of the specification\<close>

text \<open>
  A second description of the entry point, following the specification and not the code:
  selection is "the first one in this order that is there", where a value is there when
  it is a non-empty string or a table; whatever the exports give, if anything, wins over
  \<open>main\<close>, and \<open>./index.js\<close> is the last resort.
\<close>

fun first_nonempty :: "string option list \<Rightarrow> string option" where
  "first_nonempty [] = None"
| "first_nonempty (x # xs) = (if truthy x then x else first_nonempty xs)"

fun first_target :: "export_target option list \<Rightarrow> export_target option" where
  "first_target [] = None"
| "first_target (x # xs) = (if truthy_target x then x else first_target xs)"

definition spec_via_exports :: "PackageJSON \<Rightarrow> string option" where
  "spec_via_exports packageJSON =
     (case pkg_exports packageJSON of
        None \<Rightarrow> None
      | Some (ExportsString s) \<Rightarrow> first_nonempty [Some s]
      | Some (ExportsTable t) \<Rightarrow>
          (case first_target [t ''import'', t ''require'', t ''node'', t ''default'', t ''.''] of
             None \<Rightarrow> None
           | Some (Path s) \<Rightarrow> first_nonempty [Some s]
           | Some (Conditions c) \<Rightarrow>
               first_nonempty [c ''import'', c ''require'', c ''node'', c ''default'']))"

definition spec_entry_point :: "PackageJSON \<Rightarrow> string" where
  "spec_entry_point packageJSON =
     (case first_nonempty [spec_via_exports packageJSON, pkg_main packageJSON] of
        None \<Rightarrow> ''./index.js''
      | Some s \<Rightarrow> s)"

text \<open>
  The table offers something to select: one of \<open>import\<close>, \<open>require\<close>, \<open>node\<close>, \<open>default\<close> is
  a non-empty string or a table, or the key \<open>"."\<close> is present.
\<close>

definition selects_something :: "PackageJSON \<Rightarrow> bool" where
  "selects_something packageJSON =
     (case pkg_exports packageJSON of
        Some (ExportsTable t) \<Rightarrow> select_export t \<noteq> None
      | _ \<Rightarrow> True)"

section \<open>Concrete inputs\<close>

text \<open>
  One instance of everything the two files take from outside, and a few manifests,
  descriptors and handles, on which the theorems below are run.
\<close>

definition bare_name :: "string \<Rightarrow> string" where
  "bare_name identifier =
     (if CHR ''.'' \<in> set identifier
      then takeWhile (\<lambda>c. c \<noteq> CHR ''.'') (drop 1 (dropWhile (\<lambda>c. c \<noteq> CHR ''.'') identifier))
      else identifier)"

definition sample_env :: "(nat, nat) plugin_env" where
  "sample_env =
     \<lparr>getAccessoryName = bare_name,
      getPlatformName = bare_name,
      satisfies = (\<lambda>v range pre. range = ''*'' \<or> range = v),
      getVersion = ''1.8.0'',
      process_version = ''v20.0.0'',
      path_join = (\<lambda>a b. a @ ''/'' @ b),
      pathToFileURL = (\<lambda>f. ''file://'' @ f),
      importDynamic = (\<lambda>f. Inr (ModuleObject (Some 7))),
      require = (\<lambda>f. Inr (ModuleFunction 7)),
      call = (\<lambda>f api p h. (if api = 0 then Inl (Error ''no api'') else Inr (f + api), p, h))\<rparr>"

definition sample_host :: host where
  "sample_host = \<lparr>log_lines = [], imported = []\<rparr>"

definition sample_package :: PackageJSON where
  "sample_package =
     \<lparr>pkg_version = Some ''2.1.0'',
      pkg_exports = None,
      pkg_main = Some ''./dist/index.js'',
      pkg_type = None,
      pkg_engines = Some [''homebridge'' \<mapsto> ''*'', ''node'' \<mapsto> ''v20.0.0''],
      pkg_dependencies = None,
      pkg_peerDependencies = None\<rparr>"

definition sample_plugin :: Plugin where
  "sample_plugin =
     \<lparr>pluginName = ''homebridge-lamp'',
      scope = None,
      pluginPath = ''/plugins/homebridge-lamp'',
      isESM = False,
      disabled = False,
      version = ''2.1.0'',
      main = ''./dist/index.js'',
      loadContext = Some \<lparr>engines = Some [''homebridge'' \<mapsto> ''*'', ''node'' \<mapsto> ''v20.0.0''],
                           dependencies = None\<rparr>,
      pluginInitializer = None,
      registeredAccessories = Map.empty,
      registeredPlatforms = Map.empty,
      activeDynamicPlatforms = Map.empty\<rparr>"

definition bare_package :: PackageJSON where
  "bare_package = sample_package\<lparr>pkg_engines := None\<rparr>"

definition peer_package :: PackageJSON where
  "peer_package = sample_package\<lparr>pkg_engines := None, pkg_peerDependencies := Some [''homebridge'' \<mapsto> ''*'']\<rparr>"

definition empty_range_package :: PackageJSON where
  "empty_range_package =
     sample_package\<lparr>pkg_engines := None, pkg_peerDependencies := Some [''homebridge'' \<mapsto> []]\<rparr>"

definition empty_exports_package :: PackageJSON where
  "empty_exports_package = sample_package\<lparr>pkg_exports := Some (ExportsString [])\<rparr>"

definition sample_hap :: hap_env where
  "sample_hap =
     \<lparr>new_Accessory = (\<lambda>name uuid.
        if name = [] then Inl (AssertionError ''Accessories must be created with a non-empty displayName.'')
        else if uuid = [] then Inl (AssertionError ''Accessories must be created with a valid UUID.'')
        else Inr \<lparr>acc_displayName = name, acc_UUID = uuid, acc_category = 1,
                  acc_services = [], acc_internal = JNull\<rparr>),
      Accessory_serialize = (\<lambda>a.
        [''displayName'' \<mapsto> JString (acc_displayName a),
         ''UUID'' \<mapsto> JString (acc_UUID a),
         ''category'' \<mapsto> JNumber (acc_category a)]),
      Accessory_deserialize = (\<lambda>json.
        case field json ''displayName'' of
          JString name \<Rightarrow>
            (case field json ''UUID'' of
               JString uuid \<Rightarrow>
                 (case field json ''category'' of
                    JNumber c \<Rightarrow> Inr \<lparr>acc_displayName = name, acc_UUID = uuid, acc_category = c,
                                       acc_services = [], acc_internal = JNull\<rparr>
                  | _ \<Rightarrow> Inl (Error ''no category''))
             | _ \<Rightarrow> Inl (Error ''no UUID''))
        | _ \<Rightarrow> Inl (Error ''no displayName'')),
      run_listener = (\<lambda>l args. if l = 0 then Some (Error ''listener failed'') else None)\<rparr>"

definition no_injection :: statics where
  "no_injection = \<lparr>injectedAccessory = None\<rparr>"

definition sample_delegate :: Accessory where
  "sample_delegate =
     \<lparr>acc_displayName = ''Lamp'', acc_UUID = ''uuid-1'', acc_category = 1,
      acc_services = [], acc_internal = JNull\<rparr>"

definition sample_handle :: PlatformAccessory where
  "sample_handle =
     \<lparr>associatedPlugin = JString ''x'',
      associatedPlatform = JString ''y'',
      associatedHAPAccessory = sample_delegate,
      displayName = ''Lamp'',
      UUID = ''uuid-1'',
      category = JNumber 1,
      services = [],
      reachable = False,
      context = JObject [(''foo'', JString ''bar'')],
      listeners = []\<rparr>"

definition recategorized :: PlatformAccessory where
  "recategorized = sample_handle\<lparr>category := JNumber 5\<rparr>"

definition sample_record :: json_record where
  "sample_record =
     [''plugin'' \<mapsto> JString ''x'', ''platform'' \<mapsto> JString ''y'',
      ''context'' \<mapsto> JObject [(''foo'', JString ''bar'')],
      ''displayName'' \<mapsto> JString ''Lamp'', ''UUID'' \<mapsto> JString ''uuid-1'',
      ''category'' \<mapsto> JNumber 1]"

definition bare_plugin :: Plugin where
  "bare_plugin = sample_plugin\<lparr>loadContext := Some \<lparr>engines = None, dependencies = None\<rparr>\<rparr>"

definition peer_plugin :: Plugin where
  "peer_plugin =
     sample_plugin\<lparr>loadContext := Some \<lparr>engines = Some [''homebridge'' \<mapsto> ''*''], dependencies = None\<rparr>\<rparr>"

definition chatty_handle :: PlatformAccessory where
  "chatty_handle = on (on (on sample_handle ''identify'' 3) ''other'' 4) ''identify'' 5"

definition string_exports_package :: PackageJSON where
  "string_exports_package = sample_package\<lparr>pkg_exports := Some (ExportsString ''./lib/plugin.mjs'')\<rparr>"

definition nested_exports_package :: PackageJSON where
  "nested_exports_package =
     sample_package\<lparr>pkg_exports := Some (ExportsTable
        [''.'' \<mapsto> Path ''./dot.js'',
         ''require'' \<mapsto> Conditions [''node'' \<mapsto> ''./cjs/node.js'', ''default'' \<mapsto> ''./cjs/index.js''],
         ''types'' \<mapsto> Path ''./index.d.ts''])\<rparr>"

definition subpath_only_package :: PackageJSON where
  "subpath_only_package =
     sample_package\<lparr>pkg_exports := Some (ExportsTable [''./package.json'' \<mapsto> Path ''./package.json''])\<rparr>"

section \<open>Facts about the concrete inputs and about construction\<close>

lemma Plugin_new_fresh:
  "Plugin_new name path packageJSON scp = Inr p \<Longrightarrow>
   loadContext p \<noteq> None \<and> pluginInitializer p = None \<and> registeredAccessories p = Map.empty
   \<and> registeredPlatforms p = Map.empty \<and> activeDynamicPlatforms p = Map.empty \<and> \<not> disabled p"
  by (auto simp: Plugin_new_def Let_def split: sum.splits)

lemma Plugin_new_context:
  "Plugin_new name path packageJSON scp = Inr p \<Longrightarrow>
   loadContext p = Some \<lparr>engines = pkg_engines (shim_engines packageJSON),
                         dependencies = pkg_dependencies (shim_engines packageJSON)\<rparr>"
  by (auto simp: Plugin_new_def Let_def split: sum.splits)

lemma sample_plugin_constructed:
  "Plugin_new ''homebridge-lamp'' ''/plugins/homebridge-lamp'' sample_package None = Inr sample_plugin"
  by (simp add: Plugin_new_def sample_package_def sample_plugin_def resolve_main_def exports_main_def
      truthy_exports_def truthy_def fallback_main_def js_or_def shim_engines_def endsWith_def)

lemma bare_plugin_constructed:
  "Plugin_new ''homebridge-lamp'' ''/plugins/homebridge-lamp'' bare_package None = Inr bare_plugin"
  by (simp add: Plugin_new_def bare_package_def bare_plugin_def sample_package_def sample_plugin_def
      resolve_main_def exports_main_def truthy_exports_def truthy_def fallback_main_def js_or_def
      shim_engines_def endsWith_def)

lemma peer_plugin_constructed:
  "Plugin_new ''homebridge-lamp'' ''/plugins/homebridge-lamp'' peer_package None = Inr peer_plugin"
  by (simp add: Plugin_new_def peer_package_def peer_plugin_def sample_package_def sample_plugin_def
      resolve_main_def exports_main_def truthy_exports_def truthy_def fallback_main_def js_or_def
      shim_engines_def endsWith_def)

lemma sample_load:
  "load sample_env sample_plugin sample_host =
     (Inr (), sample_plugin\<lparr>loadContext := None, pluginInitializer := Some 7\<rparr>,
      \<lparr>log_lines = [], imported = [''/plugins/homebridge-lamp/./dist/index.js'']\<rparr>)"
  by (simp add: load_def sample_env_def sample_plugin_def sample_host_def engine_def dependency_def
      truthy_def str_of_def version_checks_def import_main_def Let_def)

lemma peer_load:
  "load sample_env peer_plugin sample_host =
     (Inr (), peer_plugin\<lparr>loadContext := None, pluginInitializer := Some 7\<rparr>,
      \<lparr>log_lines = [], imported = [''/plugins/homebridge-lamp/./dist/index.js'']\<rparr>)"
  by (simp add: load_def sample_env_def peer_plugin_def sample_plugin_def sample_host_def engine_def
      dependency_def truthy_def str_of_def version_checks_def import_main_def Let_def)

lemma sample_serialized:
  "fst (serialize sample_hap sample_handle) = sample_record"
  by (rule ext)
    (simp add: serialize_def sample_hap_def sample_handle_def sample_record_def sample_delegate_def
      map_add_def Let_def)

lemma sample_record_delegate:
  "Accessory_deserialize sample_hap sample_record = Inr sample_delegate"
  by (simp add: sample_hap_def sample_record_def sample_delegate_def field_def)

section \<open>C1: the serialization round trip\<close>

lemma deserialize_overlay:
  "Accessory_deserialize env json = Inr a \<Longrightarrow>
   \<exists>pa. fst (deserialize env st json) = Inr pa
     \<and> associatedHAPAccessory pa = a
     \<and> displayName pa = acc_displayName a \<and> UUID pa = acc_UUID a \<and> services pa = acc_services a
     \<and> associatedPlugin pa = field json ''plugin'' \<and> associatedPlatform pa = field json ''platform''
     \<and> context pa = field json ''context'' \<and> category pa = field json ''category''"
  by (simp add: deserialize_def PlatformAccessory_new_def Let_def)

lemma serialize_field:
  "delegate_keys_disjoint env h \<Longrightarrow>
   field (fst (serialize env h)) ''plugin'' = associatedPlugin h
   \<and> field (fst (serialize env h)) ''platform'' = associatedPlatform h
   \<and> field (fst (serialize env h)) ''context'' = context h"
  by (simp add: serialize_def delegate_keys_disjoint_def renamed_delegate_def field_def Let_def map_add_def)

lemma serialize_category:
  "Accessory_serialize env (renamed_delegate h) ''category'' = Some v \<Longrightarrow>
   field (fst (serialize env h)) ''category'' = v"
  by (simp add: serialize_def renamed_delegate_def field_def Let_def map_add_def)

text \<open>
  C1, as the claim states it, fails: \<open>serialize\<close> writes the display name of the handle back
  into the delegate but not its category, and \<open>deserialize\<close> takes the category from the
  record, where the delegate's serialization put the delegate's own. A handle made by the
  constructor without a category, whose public \<open>category\<close> field was then assigned 5 while
  its delegate still has 1, comes back with category 1. The delegate used here round-trips
  identity and category.
\<close>

lemma recategorized_reachable:
  "map_sum id
     (\<lambda>pa. pa\<lparr>associatedPlugin := JString ''x'', associatedPlatform := JString ''y'',
               context := JObject [(''foo'', JString ''bar'')], category := JNumber 5\<rparr>)
     (PlatformAccessory_new sample_hap no_injection ''Lamp'' ''uuid-1'' None)
   = Inr recategorized"
  by (simp add: PlatformAccessory_new_def sample_hap_def no_injection_def recategorized_def
      sample_handle_def sample_delegate_def Categories_OTHER_def)

theorem reassigned_category_lost:
  "associatedPlugin recategorized \<noteq> JUndefined \<and> associatedPlatform recategorized \<noteq> JUndefined
   \<and> delegate_round_trips sample_hap recategorized
   \<and> category recategorized = JNumber 5
   \<and> map_sum id category (fst (deserialize sample_hap no_injection (fst (serialize sample_hap recategorized))))
       = Inr (JNumber 1)"
  by (simp add: recategorized_def sample_handle_def delegate_round_trips_def renamed_delegate_def
      serialize_def deserialize_def PlatformAccessory_new_def sample_hap_def sample_delegate_def
      field_def Let_def no_injection_def)

text \<open>
  C1, amended: for every handle \<open>h\<close> whose plugin and platform are set, if the delegate's own
  serialization round-trips identity and category on the record of \<open>h\<close>, keeps the category
  under the key \<open>category\<close> and has no key \<open>plugin\<close>, \<open>platform\<close> or \<open>context\<close>, then
  \<open>deserialize (serialize h)\<close> returns a handle with the display name, context, plugin and
  platform of \<open>h\<close> and with the UUID and category of the delegate of \<open>h\<close>; these are the UUID
  and category of \<open>h\<close> itself whenever the mirror of \<open>h\<close> agrees with its delegate.
\<close>

theorem serialization_round_trip:
  assumes "associatedPlugin h \<noteq> JUndefined" and "associatedPlatform h \<noteq> JUndefined"
    and rt: "delegate_round_trips env h" and dj: "delegate_keys_disjoint env h"
  shows "\<exists>h'. fst (deserialize env st (fst (serialize env h))) = Inr h'
           \<and> displayName h' = displayName h
           \<and> context h' = context h
           \<and> associatedPlugin h' = associatedPlugin h
           \<and> associatedPlatform h' = associatedPlatform h
           \<and> UUID h' = acc_UUID (associatedHAPAccessory h)
           \<and> category h' = JNumber (acc_category (associatedHAPAccessory h))
           \<and> (mirror_in_sync h \<longrightarrow> UUID h' = UUID h \<and> category h' = category h)"
proof -
  let ?json = "fst (serialize env h)"
  from rt obtain a where a: "Accessory_deserialize env ?json = Inr a"
    and ida: "acc_displayName a = acc_displayName (renamed_delegate h)"
      "acc_UUID a = acc_UUID (renamed_delegate h)"
    and cat: "Accessory_serialize env (renamed_delegate h) ''category''
                = Some (JNumber (acc_category (renamed_delegate h)))"
    by (auto simp: delegate_round_trips_def split: sum.splits)
  from deserialize_overlay [OF a, of st] obtain h' where h': "fst (deserialize env st ?json) = Inr h'"
    and ov: "displayName h' = acc_displayName a" "UUID h' = acc_UUID a"
      "associatedPlugin h' = field ?json ''plugin''" "associatedPlatform h' = field ?json ''platform''"
      "context h' = field ?json ''context''" "category h' = field ?json ''category''"
    by blast
  have "displayName h' = displayName h" "UUID h' = acc_UUID (associatedHAPAccessory h)"
    using ov ida by (simp_all add: renamed_delegate_def)
  moreover have "category h' = JNumber (acc_category (associatedHAPAccessory h))"
    using ov serialize_category [OF cat] by (simp add: renamed_delegate_def)
  moreover have "context h' = context h" "associatedPlugin h' = associatedPlugin h"
    "associatedPlatform h' = associatedPlatform h"
    using ov serialize_field [OF dj] by simp_all
  ultimately show ?thesis
    using h' by (simp add: mirror_in_sync_def)
qed

text \<open>The amended C1 at the handle of the specification: context \<open>{foo: "bar"}\<close>, plugin \<open>x\<close>, platform \<open>y\<close>.\<close>

theorem serialization_round_trip_witness:
  "associatedPlugin sample_handle \<noteq> JUndefined \<and> associatedPlatform sample_handle \<noteq> JUndefined
   \<and> delegate_round_trips sample_hap sample_handle \<and> delegate_keys_disjoint sample_hap sample_handle
   \<and> mirror_in_sync sample_handle
   \<and> map_sum id displayName (fst (deserialize sample_hap no_injection (fst (serialize sample_hap sample_handle)))) = Inr ''Lamp''
   \<and> map_sum id UUID (fst (deserialize sample_hap no_injection (fst (serialize sample_hap sample_handle)))) = Inr ''uuid-1''
   \<and> map_sum id category (fst (deserialize sample_hap no_injection (fst (serialize sample_hap sample_handle)))) = Inr (JNumber 1)
   \<and> map_sum id context (fst (deserialize sample_hap no_injection (fst (serialize sample_hap sample_handle))))
       = Inr (JObject [(''foo'', JString ''bar'')])
   \<and> map_sum id associatedPlugin (fst (deserialize sample_hap no_injection (fst (serialize sample_hap sample_handle)))) = Inr (JString ''x'')
   \<and> map_sum id associatedPlatform (fst (deserialize sample_hap no_injection (fst (serialize sample_hap sample_handle)))) = Inr (JString ''y'')"
proof -
  have s: "associatedPlugin sample_handle \<noteq> JUndefined" "associatedPlatform sample_handle \<noteq> JUndefined"
    by (simp_all add: sample_handle_def)
  have d: "delegate_keys_disjoint sample_hap sample_handle"
    by (simp add: delegate_keys_disjoint_def sample_hap_def)
  have r: "delegate_round_trips sample_hap sample_handle"
    by (simp add: delegate_round_trips_def sample_serialized)
      (simp add: sample_hap_def sample_record_def field_def renamed_delegate_def sample_handle_def
        sample_delegate_def)
  have m: "mirror_in_sync sample_handle"
    by (simp add: mirror_in_sync_def sample_handle_def sample_delegate_def)
  have f: "displayName sample_handle = ''Lamp''" "UUID sample_handle = ''uuid-1''"
    "category sample_handle = JNumber 1" "context sample_handle = JObject [(''foo'', JString ''bar'')]"
    "associatedPlugin sample_handle = JString ''x''" "associatedPlatform sample_handle = JString ''y''"
    by (simp_all add: sample_handle_def)
  from serialization_round_trip [OF s r d, of no_injection] m f
  show ?thesis
    using s d r by auto
qed

section \<open>C2: entry-point resolution\<close>

lemma select_export_first:
  "first_target [t ''import'', t ''require'', t ''node'', t ''default'', t ''.'']
     = (if truthy_target (select_export t) then select_export t else None)"
  by (simp add: select_export_def target_or_def)

lemma nested_main_first:
  "(if truthy (nested_main c) then nested_main c else None)
     = first_nonempty [c ''import'', c ''require'', c ''node'', c ''default'']"
  by (simp add: nested_main_def js_or_def)

lemma exports_main_via:
  assumes sel: "selects_something packageJSON"
  shows "\<exists>m. exports_main packageJSON = Inr m \<and> (if truthy m then m else None) = spec_via_exports packageJSON"
proof (cases "pkg_exports packageJSON")
  case None
  then show ?thesis
    by (simp add: exports_main_def spec_via_exports_def truthy_exports_def truthy_def)
next
  case (Some e)
  show ?thesis
  proof (cases e)
    case (ExportsString s)
    with Some show ?thesis
      by (simp add: exports_main_def spec_via_exports_def truthy_exports_def truthy_def)
  next
    case (ExportsTable t)
    with sel Some have ne: "select_export t \<noteq> None"
      by (simp add: selects_something_def)
    then obtain x where x: "select_export t = Some x" by auto
    show ?thesis
    proof (cases x)
      case (Path s)
      with Some ExportsTable x show ?thesis
        by (simp add: exports_main_def spec_via_exports_def truthy_exports_def truthy_def
            select_export_first truthy_target_def del: first_target.simps)
    next
      case (Conditions c)
      with Some ExportsTable x nested_main_first [of c] show ?thesis
        by (simp add: exports_main_def spec_via_exports_def truthy_exports_def select_export_first
            truthy_target_def del: first_target.simps first_nonempty.simps)
    qed
  qed
qed

text \<open>
  C2, as the claim states it, fails: the constructor tests \<open>exports\<close> for truthiness before
  it looks at its type, so an \<open>exports\<close> that is the empty string is passed over, and the
  entry point is \<open>main\<close> and not that string.
\<close>

theorem empty_exports_string_ignored:
  "pkg_exports empty_exports_package = Some (ExportsString [])
   \<and> pkg_main empty_exports_package = Some ''./dist/index.js''
   \<and> resolve_main empty_exports_package = Inr ''./dist/index.js''
   \<and> resolve_main empty_exports_package \<noteq> Inr []"
  by (simp add: empty_exports_package_def sample_package_def resolve_main_def exports_main_def
      truthy_exports_def truthy_def fallback_main_def js_or_def)

text \<open>
  A table in which none of \<open>import\<close>, \<open>require\<close>, \<open>node\<close>, \<open>default\<close> is there and \<open>"."\<close> is
  missing makes the constructor throw, although the comment before the fallback reads
  "exports search was not successful, fallback to package.main". The amended C2 says
  nothing about such tables.
\<close>

lemma subpath_only_exports_throw:
  "resolve_main subpath_only_package = Inl TypeError
   \<and> Plugin_new ''homebridge-lamp'' ''/plugins/homebridge-lamp'' subpath_only_package None = Inl TypeError"
  by (simp add: subpath_only_package_def sample_package_def resolve_main_def exports_main_def
      truthy_exports_def select_export_def target_or_def truthy_target_def Plugin_new_def)

text \<open>
  C2, amended: for every manifest whose \<open>exports\<close>, when it is a table, has a non-empty
  string or a table under \<open>import\<close>, \<open>require\<close>, \<open>node\<close> or \<open>default\<close>, or has the key \<open>"."\<close>,
  the resolved entry point is \<open>spec_entry_point\<close>: a non-empty string \<open>exports\<close> is
  the entry point regardless of \<open>main\<close>; in a table the first of \<open>import\<close>, \<open>require\<close>, \<open>node\<close>,
  \<open>default\<close>, \<open>"."\<close> that is a non-empty string or a table is selected, and when it is a
  table the first non-empty of its \<open>import\<close>, \<open>require\<close>, \<open>node\<close>, \<open>default\<close> is taken; when
  the exports are absent or give nothing (the empty string counts as nothing), the entry
  point is \<open>main\<close> if that is a non-empty string and \<open>./index.js\<close> otherwise.
\<close>

theorem entry_point_resolution:
  "(selects_something packageJSON \<longrightarrow> resolve_main packageJSON = Inr (spec_entry_point packageJSON))
   \<and> (pkg_exports packageJSON = Some (ExportsString s) \<and> s \<noteq> [] \<longrightarrow> resolve_main packageJSON = Inr s)
   \<and> (pkg_exports packageJSON = None \<longrightarrow>
        resolve_main packageJSON
          = Inr (case pkg_main packageJSON of
                   None \<Rightarrow> ''./index.js''
                 | Some m \<Rightarrow> (if m = [] then ''./index.js'' else m)))"
proof (intro conjI impI)
  assume "selects_something packageJSON"
  from exports_main_via [OF this] obtain m where m: "exports_main packageJSON = Inr m"
    and v: "(if truthy m then m else None) = spec_via_exports packageJSON"
    by blast
  show "resolve_main packageJSON = Inr (spec_entry_point packageJSON)"
  proof (cases "truthy m")
    case True
    with v have "spec_via_exports packageJSON = m" by simp
    with True m show ?thesis
      by (auto simp: resolve_main_def spec_entry_point_def truthy_def split: option.splits)
  next
    case False
    with v have "spec_via_exports packageJSON = None" by simp
    with False m show ?thesis
      by (auto simp: resolve_main_def spec_entry_point_def fallback_main_def js_or_def truthy_def
          split: option.splits)
  qed
next
  assume "pkg_exports packageJSON = Some (ExportsString s) \<and> s \<noteq> []"
  then show "resolve_main packageJSON = Inr s"
    by (simp add: resolve_main_def exports_main_def truthy_exports_def truthy_def)
next
  assume "pkg_exports packageJSON = None"
  then show "resolve_main packageJSON
          = Inr (case pkg_main packageJSON of
                   None \<Rightarrow> ''./index.js''
                 | Some m \<Rightarrow> (if m = [] then ''./index.js'' else m))"
    by (simp add: resolve_main_def exports_main_def truthy_exports_def truthy_def fallback_main_def
        js_or_def split: option.splits)
qed

text \<open>
  The amended C2 on a nested table (\<open>require\<close> is a table, whose \<open>node\<close> is taken although
  \<open>"."\<close> is a string), on a string \<open>exports\<close> beside a \<open>main\<close>, and without \<open>exports\<close>, with
  and without \<open>main\<close>.
\<close>

theorem entry_point_resolution_witness:
  "selects_something nested_exports_package
   \<and> resolve_main nested_exports_package = Inr ''./cjs/node.js''
   \<and> pkg_exports string_exports_package = Some (ExportsString ''./lib/plugin.mjs'')
   \<and> pkg_main string_exports_package = Some ''./dist/index.js''
   \<and> resolve_main string_exports_package = Inr ''./lib/plugin.mjs''
   \<and> pkg_exports sample_package = None
   \<and> resolve_main sample_package = Inr ''./dist/index.js''
   \<and> pkg_exports (sample_package\<lparr>pkg_main := None\<rparr>) = None
   \<and> resolve_main (sample_package\<lparr>pkg_main := None\<rparr>) = Inr ''./index.js''"
proof -
  have a: "selects_something nested_exports_package"
    by (simp add: selects_something_def nested_exports_package_def select_export_def target_or_def
        truthy_target_def)
  have b: "spec_entry_point nested_exports_package = ''./cjs/node.js''"
    by (simp add: spec_entry_point_def spec_via_exports_def nested_exports_package_def truthy_target_def truthy_def)
  have c: "pkg_exports string_exports_package = Some (ExportsString ''./lib/plugin.mjs'')"
    "pkg_main string_exports_package = Some ''./dist/index.js''"
    by (simp_all add: string_exports_package_def sample_package_def)
  have d: "pkg_exports sample_package = None" "pkg_main sample_package = Some ''./dist/index.js''"
    "pkg_exports (sample_package\<lparr>pkg_main := None\<rparr>) = None"
    by (simp_all add: sample_package_def)
  show ?thesis
    using entry_point_resolution [where packageJSON = nested_exports_package]
      entry_point_resolution [where packageJSON = string_exports_package and s = "''./lib/plugin.mjs''"]
      entry_point_resolution [where packageJSON = sample_package]
      entry_point_resolution [where packageJSON = "sample_package\<lparr>pkg_main := None\<rparr>"]
      a b c d
    by simp
qed

section \<open>C3: the version gate\<close>

lemma shim_engine_homebridge:
  "\<not> truthy (manifest_engine packageJSON ''homebridge'') \<Longrightarrow>
   truthy (manifest_engine (shim_engines packageJSON) ''homebridge'')
     = truthy (manifest_peer packageJSON ''homebridge'')
   \<and> (truthy (manifest_peer packageJSON ''homebridge'') \<longrightarrow>
        manifest_engine (shim_engines packageJSON) ''homebridge'' = manifest_peer packageJSON ''homebridge'')"
  by (auto simp: shim_engines_def manifest_engine_def manifest_peer_def truthy_def split: option.splits)

lemma import_main_imports:
  "imported (snd (snd (import_main env p h))) \<noteq> imported h"
  by (auto simp: import_main_def Let_def split: sum.splits module_exports.splits option.splits)

text \<open>
  C3, as the claim states it, fails: a manifest that declares the peer dependency with the
  empty range (npm's "any version") and no \<open>engines\<close> gets \<open>engines.homebridge\<close> synthesized
  as the empty string, which the check in \<open>load\<close> treats like a missing one; \<open>load\<close> fails
  with the missing-engine error and imports nothing.
\<close>

theorem empty_peer_range_fails:
  "manifest_engine empty_range_package ''homebridge'' = None
   \<and> manifest_peer empty_range_package ''homebridge'' = Some []
   \<and> fst (construct_and_load sample_env ''homebridge-lamp'' ''/plugins/homebridge-lamp'' empty_range_package None sample_host)
       = Inl (Error (''Plugin /plugins/homebridge-lamp does not contain the 'homebridge' package in 'engines'.''))
   \<and> imported (snd (snd (construct_and_load sample_env ''homebridge-lamp'' ''/plugins/homebridge-lamp'' empty_range_package None sample_host)))
       = []"
  by (simp add: construct_and_load_def Plugin_new_def empty_range_package_def sample_package_def
      resolve_main_def exports_main_def truthy_exports_def truthy_def fallback_main_def js_or_def
      shim_engines_def endsWith_def manifest_engine_def manifest_peer_def load_def engine_def
      missing_engine_def sample_host_def Let_def)

text \<open>
  C3, amended: for every descriptor constructed from a manifest with no (or an empty)
  \<open>engines.homebridge\<close>: if the manifest has no (or an empty) homebridge peer-dependency
  range, \<open>load\<close> fails with the missing-engine error, the host state is unchanged and so no
  module is imported; if the manifest declares a non-empty homebridge peer-dependency
  range, that range is the engine requirement of the load context, the fatal check passes
  and \<open>load\<close> goes on to the version checks and the import.
\<close>

theorem version_gating:
  "Plugin_new name path packageJSON scp = Inr p \<and> \<not> truthy (manifest_engine packageJSON ''homebridge'') \<longrightarrow>
     (\<not> truthy (manifest_peer packageJSON ''homebridge'') \<longrightarrow>
        load env p h = (Inl (missing_engine p), p\<lparr>loadContext := None\<rparr>, h))
     \<and> (truthy (manifest_peer packageJSON ''homebridge'') \<longrightarrow>
        (\<exists>ctx. loadContext p = Some ctx
           \<and> engine ctx ''homebridge'' = manifest_peer packageJSON ''homebridge''
           \<and> load env p h = import_main env (p\<lparr>loadContext := None\<rparr>)
                              (version_checks env (p\<lparr>loadContext := None\<rparr>) ctx h)
           \<and> imported (snd (snd (load env p h))) \<noteq> imported (version_checks env (p\<lparr>loadContext := None\<rparr>) ctx h)))"
proof (intro impI, elim conjE)
  assume new: "Plugin_new name path packageJSON scp = Inr p"
    and noeng: "\<not> truthy (manifest_engine packageJSON ''homebridge'')"
  let ?ctx = "\<lparr>engines = pkg_engines (shim_engines packageJSON),
               dependencies = pkg_dependencies (shim_engines packageJSON)\<rparr>"
  have ctx: "loadContext p = Some ?ctx"
    using Plugin_new_context [OF new] .
  have eng: "truthy (engine ?ctx ''homebridge'') = truthy (manifest_peer packageJSON ''homebridge'')"
    "truthy (manifest_peer packageJSON ''homebridge'') \<longrightarrow>
       engine ?ctx ''homebridge'' = manifest_peer packageJSON ''homebridge''"
    using shim_engine_homebridge [OF noeng] by (simp_all add: engine_def manifest_engine_def)
  show "(\<not> truthy (manifest_peer packageJSON ''homebridge'') \<longrightarrow>
        load env p h = (Inl (missing_engine p), p\<lparr>loadContext := None\<rparr>, h))
     \<and> (truthy (manifest_peer packageJSON ''homebridge'') \<longrightarrow>
        (\<exists>ctx. loadContext p = Some ctx
           \<and> engine ctx ''homebridge'' = manifest_peer packageJSON ''homebridge''
           \<and> load env p h = import_main env (p\<lparr>loadContext := None\<rparr>)
                              (version_checks env (p\<lparr>loadContext := None\<rparr>) ctx h)
           \<and> imported (snd (snd (load env p h))) \<noteq> imported (version_checks env (p\<lparr>loadContext := None\<rparr>) ctx h)))"
    using ctx eng by (simp add: load_def missing_engine_def Let_def import_main_imports)
qed

text \<open>
  The amended C3 on a manifest with neither \<open>engines\<close> nor peer dependencies, and on one
  whose only declaration is the peer dependency \<open>homebridge: "*"\<close>.
\<close>

theorem version_gating_witness:
  "Plugin_new ''homebridge-lamp'' ''/plugins/homebridge-lamp'' bare_package None = Inr bare_plugin
   \<and> \<not> truthy (manifest_engine bare_package ''homebridge'')
   \<and> \<not> truthy (manifest_peer bare_package ''homebridge'')
   \<and> load sample_env bare_plugin sample_host
       = (Inl (missing_engine bare_plugin), bare_plugin\<lparr>loadContext := None\<rparr>, sample_host)
   \<and> Plugin_new ''homebridge-lamp'' ''/plugins/homebridge-lamp'' peer_package None = Inr peer_plugin
   \<and> \<not> truthy (manifest_engine peer_package ''homebridge'')
   \<and> truthy (manifest_peer peer_package ''homebridge'')
   \<and> fst (load sample_env peer_plugin sample_host) = Inr ()
   \<and> imported (snd (snd (load sample_env peer_plugin sample_host))) = [''/plugins/homebridge-lamp/./dist/index.js'']"
proof -
  have a: "\<not> truthy (manifest_engine bare_package ''homebridge'')"
    "\<not> truthy (manifest_peer bare_package ''homebridge'')"
    by (simp_all add: bare_package_def sample_package_def manifest_engine_def manifest_peer_def truthy_def)
  have b: "\<not> truthy (manifest_engine peer_package ''homebridge'')"
    "truthy (manifest_peer peer_package ''homebridge'')"
    by (simp_all add: peer_package_def sample_package_def manifest_engine_def manifest_peer_def truthy_def)
  have "load sample_env bare_plugin sample_host
       = (Inl (missing_engine bare_plugin), bare_plugin\<lparr>loadContext := None\<rparr>, sample_host)"
    using version_gating [where name = "''homebridge-lamp''" and path = "''/plugins/homebridge-lamp''"
        and packageJSON = bare_package and scp = None and p = bare_plugin and env = sample_env
        and h = sample_host] bare_plugin_constructed a
    by blast
  moreover have "\<exists>ctx. loadContext peer_plugin = Some ctx
      \<and> engine ctx ''homebridge'' = manifest_peer peer_package ''homebridge''"
    using version_gating [where name = "''homebridge-lamp''" and path = "''/plugins/homebridge-lamp''"
        and packageJSON = peer_package and scp = None and p = peer_plugin and env = sample_env
        and h = sample_host] peer_plugin_constructed b
    by blast
  ultimately show ?thesis
    using a b bare_plugin_constructed peer_plugin_constructed peer_load by simp
qed

section \<open>C4: duplicate registration\<close>

text \<open>
  C4: whatever a call of \<open>registerAccessory\<close> did, the next call with the same name fails
  with the duplicate-registration error and changes neither the descriptor nor the log;
  when the first call succeeded, the name is still associated with the constructor it
  stored; and a call with a name that is not registered succeeds and stores the
  constructor, whatever \<open>disabled\<close> is. The same holds for \<open>registerPlatform\<close>.
\<close>

theorem duplicate_registration:
  "(case registerAccessory p name c h of
      (r, p1, h1) \<Rightarrow>
        registerAccessory p1 name c' h1 = (Inl (duplicate_accessory p1 name), p1, h1)
        \<and> (r = Inr () \<longrightarrow> registeredAccessories p1 name = Some c)
        \<and> (registeredAccessories p name = None \<longrightarrow>
             r = Inr () \<and> p1 = p\<lparr>registeredAccessories := (registeredAccessories p)(name \<mapsto> c)\<rparr>))
   \<and> (case registerPlatform p name c h of
      (r, p1, h1) \<Rightarrow>
        registerPlatform p1 name c' h1 = (Inl (duplicate_platform p1 name), p1, h1)
        \<and> (r = Inr () \<longrightarrow> registeredPlatforms p1 name = Some c)
        \<and> (registeredPlatforms p name = None \<longrightarrow>
             r = Inr () \<and> p1 = p\<lparr>registeredPlatforms := (registeredPlatforms p)(name \<mapsto> c)\<rparr>))"
  by (auto simp: registerAccessory_def registerPlatform_def Let_def)

text \<open>C4 on a fresh descriptor, enabled for the accessory and disabled for the platform.\<close>

theorem duplicate_registration_witness:
  "registeredAccessories sample_plugin ''Lamp'' = None
   \<and> registeredPlatforms (sample_plugin\<lparr>disabled := True\<rparr>) ''Lights'' = None
   \<and> fst (registerAccessory sample_plugin ''Lamp'' 11 sample_host) = Inr ()
   \<and> registeredAccessories (fst (snd (registerAccessory sample_plugin ''Lamp'' 11 sample_host))) ''Lamp'' = Some 11
   \<and> fst (registerPlatform (sample_plugin\<lparr>disabled := True\<rparr>) ''Lights'' 21 sample_host) = Inr ()
   \<and> registeredPlatforms (fst (snd (registerPlatform (sample_plugin\<lparr>disabled := True\<rparr>) ''Lights'' 21 sample_host))) ''Lights'' = Some 21"
  using duplicate_registration [where p = sample_plugin and name = "''Lamp''" and c = 11 and h = sample_host and c' = 12]
    duplicate_registration [where p = "sample_plugin\<lparr>disabled := True\<rparr>" and name = "''Lights''" and c = 21 and h = sample_host and c' = 22]
  by (simp add: sample_plugin_def split: prod.splits)

section \<open>C5: dynamic-platform stacking\<close>

lemma assign_other_name:
  "getPlatformName env i \<noteq> P \<Longrightarrow>
   activeDynamicPlatforms (assignDynamicPlatform env p i x) P = activeDynamicPlatforms p P"
  by (simp add: assignDynamicPlatform_def Let_def)

lemma assign_all_untouched:
  "P \<notin> getPlatformName env ` fst ` set calls \<Longrightarrow>
   activeDynamicPlatforms (assign_all env p calls) P = activeDynamicPlatforms p P"
proof (induction calls arbitrary: p)
  case Nil
  then show ?case by simp
next
  case (Cons a calls)
  obtain i x where a: "a = (i, x)" by (cases a)
  from Cons.prems a have ne: "getPlatformName env i \<noteq> P" and rest: "P \<notin> getPlatformName env ` fst ` set calls"
    by auto
  show ?case
    using Cons.IH [OF rest] assign_other_name [OF ne] a by simp
qed

text \<open>
  \<open>assignDynamicPlatform\<close> files the instance under the normalized identifier, while
  \<open>getActiveDynamicPlatform\<close> looks its argument up as it is: whatever the identifier, the
  lookup under its bare name finds the last instance assigned.
\<close>

lemma stacking_under_normalized_name:
  "getActiveDynamicPlatform (assignDynamicPlatform env (assignDynamicPlatform env p i A) i B)
     (getPlatformName env i) = Some B"
  by (simp add: assignDynamicPlatform_def getActiveDynamicPlatform_def Let_def)

text \<open>
  C5: for every descriptor and every platform name \<open>P\<close> (a bare name, which normalization
  leaves as it is), each \<open>assignDynamicPlatform\<close> puts the instance in front of the list of
  \<open>P\<close>: after assigning \<open>A\<close> then \<open>B\<close> the active platform is \<open>B\<close>, after \<open>C\<close> it is \<open>C\<close>, and the
  list is \<open>C\<close>, \<open>B\<close>, \<open>A\<close> followed by what was there before. On a descriptor on which no
  assignment was ever made under \<open>P\<close>, the active platform of \<open>P\<close> is absent.
\<close>

theorem dynamic_platform_stacking:
  "(getPlatformName env P = P \<longrightarrow>
      (let old = (case activeDynamicPlatforms p P of None \<Rightarrow> [] | Some ps \<Rightarrow> ps);
           p2 = assignDynamicPlatform env (assignDynamicPlatform env p P A) P B;
           p3 = assignDynamicPlatform env p2 P C
       in activeDynamicPlatforms (assignDynamicPlatform env p P A) P = Some (A # old)
          \<and> getActiveDynamicPlatform p2 P = Some B
          \<and> getActiveDynamicPlatform p3 P = Some C
          \<and> activeDynamicPlatforms p3 P = Some (C # B # A # old)))
   \<and> (Plugin_new name path packageJSON scp = Inr q \<and> P \<notin> getPlatformName env ` fst ` set calls \<longrightarrow>
        getActiveDynamicPlatform (assign_all env q calls) P = None)"
proof (intro conjI impI)
  assume "getPlatformName env P = P"
  then show "let old = (case activeDynamicPlatforms p P of None \<Rightarrow> [] | Some ps \<Rightarrow> ps);
           p2 = assignDynamicPlatform env (assignDynamicPlatform env p P A) P B;
           p3 = assignDynamicPlatform env p2 P C
       in activeDynamicPlatforms (assignDynamicPlatform env p P A) P = Some (A # old)
          \<and> getActiveDynamicPlatform p2 P = Some B
          \<and> getActiveDynamicPlatform p3 P = Some C
          \<and> activeDynamicPlatforms p3 P = Some (C # B # A # old)"
    by (simp add: assignDynamicPlatform_def getActiveDynamicPlatform_def Let_def)
next
  assume a: "Plugin_new name path packageJSON scp = Inr q \<and> P \<notin> getPlatformName env ` fst ` set calls"
  then have "activeDynamicPlatforms (assign_all env q calls) P = activeDynamicPlatforms q P"
    using assign_all_untouched by blast
  moreover have "activeDynamicPlatforms q P = None"
    using a Plugin_new_fresh by fastforce
  ultimately show "getActiveDynamicPlatform (assign_all env q calls) P = None"
    by (simp add: getActiveDynamicPlatform_def)
qed

text \<open>C5 on a fresh descriptor: three instances under \<open>Lights\<close>, and one under another name.\<close>

theorem dynamic_platform_stacking_witness:
  "getPlatformName sample_env ''Lights'' = ''Lights''
   \<and> getActiveDynamicPlatform
       (assignDynamicPlatform sample_env (assignDynamicPlatform sample_env sample_plugin ''Lights'' 1) ''Lights'' 2)
       ''Lights'' = Some 2
   \<and> activeDynamicPlatforms
       (assignDynamicPlatform sample_env
          (assignDynamicPlatform sample_env (assignDynamicPlatform sample_env sample_plugin ''Lights'' 1) ''Lights'' 2)
          ''Lights'' 3) ''Lights'' = Some [3, 2, 1]
   \<and> Plugin_new ''homebridge-lamp'' ''/plugins/homebridge-lamp'' sample_package None = Inr sample_plugin
   \<and> ''Lights'' \<notin> getPlatformName sample_env ` fst ` set [(''Other'', 4)]
   \<and> getActiveDynamicPlatform (assign_all sample_env sample_plugin [(''Other'', 4)]) ''Lights'' = None"
proof -
  have n: "getPlatformName sample_env ''Lights'' = ''Lights''"
    by (simp add: sample_env_def bare_name_def)
  have o: "''Lights'' \<notin> getPlatformName sample_env ` fst ` set [(''Other'', 4::nat)]"
    by (simp add: sample_env_def bare_name_def)
  have old: "activeDynamicPlatforms sample_plugin ''Lights'' = None"
    by (simp add: sample_plugin_def)
  show ?thesis
    using dynamic_platform_stacking [where env = sample_env and P = "''Lights''" and p = sample_plugin
        and A = 1 and B = 2 and C = 3 and name = "''homebridge-lamp''" and path = "''/plugins/homebridge-lamp''"
        and packageJSON = sample_package and scp = None and q = sample_plugin and calls = "[(''Other'', 4)]"]
      n o old sample_plugin_constructed
    by (simp add: Let_def)
qed

section \<open>C6: identify forwarding\<close>

lemma deliver_all_return:
  "\<forall>l \<in> set ls. run_listener env l args = None \<Longrightarrow>
   deliver env ls args t = (None, t @ map (\<lambda>l. Delivered l args) ls)"
  by (induction ls arbitrary: t) simp_all

lemma deliver_reached:
  "snd (deliver env ls args t) = t @ map (\<lambda>l. Delivered l args) (reached env ls args)"
proof (induction ls arbitrary: t)
  case Nil
  show ?case by simp
next
  case (Cons l ls)
  show ?case
  proof (cases "run_listener env l args")
    case None
    then show ?thesis using Cons.IH [of "t @ [Delivered l args]"] by simp
  next
    case (Some e)
    then show ?thesis by simp
  qed
qed

lemma reached_prefix:
  "\<exists>rest. ls = reached env ls args @ rest"
proof (induction ls)
  case Nil
  show ?case by simp
next
  case (Cons l ls)
  then obtain rest where r: "ls = reached env ls args @ rest" by blast
  show ?case
  proof (cases "run_listener env l args")
    case None
    with r have "l # ls = reached env (l # ls) args @ rest" by simp
    then show ?thesis by blast
  next
    case (Some e)
    then have "l # ls = reached env (l # ls) args @ ls" by simp
    then show ?thesis by blast
  qed
qed

lemma forward_identify_trace:
  "snd (forward_identify env h paired callback t)
     = t @ [Emitted ''identify'' [ArgBool paired, ArgEmptyCallback]]
         @ map (\<lambda>l. Delivered l [ArgBool paired, ArgEmptyCallback])
             (reached env (listeners_of h ''identify'') [ArgBool paired, ArgEmptyCallback])
         @ (case fst (forward_identify env h paired callback t) of
              Inl e \<Rightarrow> [] | Inr u \<Rightarrow> [Invoked callback])"
proof -
  let ?args = "[ArgBool paired, ArgEmptyCallback]"
  let ?t = "t @ [Emitted ''identify'' ?args]"
  obtain r t' where d: "deliver env (listeners_of h ''identify'') ?args ?t = (r, t')"
    by (cases "deliver env (listeners_of h ''identify'') ?args ?t") auto
  have t': "t' = ?t @ map (\<lambda>l. Delivered l ?args) (reached env (listeners_of h ''identify'') ?args)"
    using deliver_reached [of env "listeners_of h ''identify''" ?args ?t] d by simp
  show ?thesis
  proof (cases r)
    case None
    with d t' show ?thesis by (simp add: forward_identify_def emit_def Let_def)
  next
    case (Some e)
    with d t' show ?thesis by (simp add: forward_identify_def emit_def Let_def)
  qed
qed

text \<open>
  C6, as the claim states it, fails: the event that the handle emits is not without
  payload. The source passes the pairing flag and an empty callback to \<open>emit\<close> ("empty
  callback for backwards compatibility"), so that is what a listener is called with.
\<close>

theorem identify_payload:
  "listeners sample_handle = []
   \<and> snd (forward_identify sample_hap sample_handle True 9 [])
       = [Emitted ''identify'' [ArgBool True, ArgEmptyCallback], Invoked 9]
   \<and> snd (forward_identify sample_hap sample_handle True 9 []) \<noteq> [Emitted ''identify'' [], Invoked 9]"
  by (simp add: forward_identify_def emit_def listeners_of_def sample_handle_def Let_def)

text \<open>
  Nothing catches what a listener throws: the exception leaves \<open>emit\<close> and the forwarding
  listener, and the completion callback is not called.
\<close>

lemma throwing_listener_skips_callback:
  "forward_identify sample_hap (on sample_handle ''identify'' 0) True 9 []
     = (Inl (Error ''listener failed''),
        [Emitted ''identify'' [ArgBool True, ArgEmptyCallback], Delivered 0 [ArgBool True, ArgEmptyCallback]])"
  by (simp add: forward_identify_def emit_def listeners_of_def sample_handle_def on_def sample_hap_def Let_def)

text \<open>
  C6, amended: for every identify notification from the delegate, with its pairing flag
  and its completion callback, the handle emits exactly one \<open>identify\<close> event, whose
  arguments are the pairing flag and an empty callback, whatever the listeners do; the
  event reaches the identify listeners of the handle in order of registration, up to the
  first one that throws; and when each of them returns, the completion callback is
  invoked exactly once, after the emission and the deliveries. With no listener attached
  the emission is followed at once by the callback.
\<close>

theorem identify_forwarding:
  "snd (forward_identify env h paired callback t)
     = t @ [Emitted ''identify'' [ArgBool paired, ArgEmptyCallback]]
         @ map (\<lambda>l. Delivered l [ArgBool paired, ArgEmptyCallback])
             (reached env (listeners_of h ''identify'') [ArgBool paired, ArgEmptyCallback])
         @ (case fst (forward_identify env h paired callback t) of
              Inl e \<Rightarrow> [] | Inr u \<Rightarrow> [Invoked callback])
   \<and> (\<exists>rest. listeners_of h ''identify''
         = reached env (listeners_of h ''identify'') [ArgBool paired, ArgEmptyCallback] @ rest)
   \<and> ((\<forall>l \<in> set (listeners_of h ''identify''). run_listener env l [ArgBool paired, ArgEmptyCallback] = None) \<longrightarrow>
     forward_identify env h paired callback t =
       (Inr (), t @ [Emitted ''identify'' [ArgBool paired, ArgEmptyCallback]]
                  @ map (\<lambda>l. Delivered l [ArgBool paired, ArgEmptyCallback]) (listeners_of h ''identify'')
                  @ [Invoked callback]))"
proof (intro conjI impI)
  show "snd (forward_identify env h paired callback t)
     = t @ [Emitted ''identify'' [ArgBool paired, ArgEmptyCallback]]
         @ map (\<lambda>l. Delivered l [ArgBool paired, ArgEmptyCallback])
             (reached env (listeners_of h ''identify'') [ArgBool paired, ArgEmptyCallback])
         @ (case fst (forward_identify env h paired callback t) of
              Inl e \<Rightarrow> [] | Inr u \<Rightarrow> [Invoked callback])"
    by (rule forward_identify_trace)
  show "\<exists>rest. listeners_of h ''identify''
         = reached env (listeners_of h ''identify'') [ArgBool paired, ArgEmptyCallback] @ rest"
    by (rule reached_prefix)
  show "forward_identify env h paired callback t =
       (Inr (), t @ [Emitted ''identify'' [ArgBool paired, ArgEmptyCallback]]
                  @ map (\<lambda>l. Delivered l [ArgBool paired, ArgEmptyCallback]) (listeners_of h ''identify'')
                  @ [Invoked callback])"
    if "\<forall>l \<in> set (listeners_of h ''identify''). run_listener env l [ArgBool paired, ArgEmptyCallback] = None"
    using that by (simp add: forward_identify_def emit_def Let_def deliver_all_return)
qed

text \<open>
  The amended C6 on a handle without listeners, and on one with two identify listeners
  and a listener of another event between them.
\<close>

theorem identify_forwarding_witness:
  "listeners_of sample_handle ''identify'' = []
   \<and> forward_identify sample_hap sample_handle True 9 []
       = (Inr (), [Emitted ''identify'' [ArgBool True, ArgEmptyCallback], Invoked 9])
   \<and> listeners_of chatty_handle ''identify'' = [3, 5]
   \<and> forward_identify sample_hap chatty_handle False 9 []
       = (Inr (), [Emitted ''identify'' [ArgBool False, ArgEmptyCallback],
                   Delivered 3 [ArgBool False, ArgEmptyCallback],
                   Delivered 5 [ArgBool False, ArgEmptyCallback], Invoked 9])"
proof -
  have a: "listeners_of sample_handle ''identify'' = []"
    by (simp add: listeners_of_def sample_handle_def)
  have b: "listeners_of chatty_handle ''identify'' = [3, 5]"
    by (simp add: listeners_of_def chatty_handle_def on_def sample_handle_def)
  have r: "run_listener sample_hap 3 [ArgBool False, ArgEmptyCallback] = None"
    "run_listener sample_hap 5 [ArgBool False, ArgEmptyCallback] = None"
    by (simp_all add: sample_hap_def)
  have "forward_identify sample_hap sample_handle True 9 []
       = (Inr (), [Emitted ''identify'' [ArgBool True, ArgEmptyCallback], Invoked 9])"
    using identify_forwarding [where h = sample_handle and env = sample_hap and paired = True
        and callback = 9 and t = "[]"] a
    by simp
  moreover have "forward_identify sample_hap chatty_handle False 9 []
       = (Inr (), [Emitted ''identify'' [ArgBool False, ArgEmptyCallback],
                   Delivered 3 [ArgBool False, ArgEmptyCallback],
                   Delivered 5 [ArgBool False, ArgEmptyCallback], Invoked 9])"
    using identify_forwarding [where h = chatty_handle and env = sample_hap and paired = False
        and callback = 9 and t = "[]"] b r
    by simp
  ultimately show ?thesis using a b by simp
qed

section \<open>C7: the shape of the serialized record\<close>

text \<open>
  C7: for every handle, \<open>serialize\<close> first copies the current display name of the handle
  into the delegate, so that the delegate which is serialized carries it (also after a
  rename). The delegate's serialization is a \<open>SerializedAccessory\<close>, a type without the
  keys \<open>plugin\<close>, \<open>platform\<close> and \<open>context\<close> (\<open>delegate_keys_disjoint\<close>); then these three keys
  of the record hold the values of the handle, no field of the delegate overwrites them,
  and every field that the delegate's serialization produces is in the record with the
  delegate's value, which are all the other keys of the record.
\<close>

theorem serialize_record_shape:
  "snd (serialize env h) = h\<lparr>associatedHAPAccessory := renamed_delegate h\<rparr>
   \<and> (name \<noteq> [] \<longrightarrow>
        acc_displayName (renamed_delegate (updateDisplayName h name)) = name
        \<and> displayName (updateDisplayName h name) = name)
   \<and> (Accessory_serialize env (renamed_delegate h) k = Some v \<longrightarrow> fst (serialize env h) k = Some v)
   \<and> (k \<noteq> ''plugin'' \<and> k \<noteq> ''platform'' \<and> k \<noteq> ''context'' \<longrightarrow>
        fst (serialize env h) k = Accessory_serialize env (renamed_delegate h) k)
   \<and> (delegate_keys_disjoint env h \<longrightarrow>
        fst (serialize env h) ''plugin'' = Some (associatedPlugin h)
        \<and> fst (serialize env h) ''platform'' = Some (associatedPlatform h)
        \<and> fst (serialize env h) ''context'' = Some (context h))"
  by (auto simp: serialize_def renamed_delegate_def updateDisplayName_def delegate_keys_disjoint_def
      Let_def map_add_def split: option.splits)

text \<open>C7 on the sample handle, as it is and after a rename to \<open>Desk\<close>.\<close>

theorem serialize_record_shape_witness:
  "delegate_keys_disjoint sample_hap sample_handle
   \<and> fst (serialize sample_hap sample_handle) ''plugin'' = Some (JString ''x'')
   \<and> fst (serialize sample_hap sample_handle) ''platform'' = Some (JString ''y'')
   \<and> fst (serialize sample_hap sample_handle) ''context'' = Some (JObject [(''foo'', JString ''bar'')])
   \<and> Accessory_serialize sample_hap (renamed_delegate (updateDisplayName sample_handle ''Desk'')) ''displayName''
       = Some (JString ''Desk'')
   \<and> fst (serialize sample_hap (updateDisplayName sample_handle ''Desk'')) ''displayName'' = Some (JString ''Desk'')"
proof -
  have d: "delegate_keys_disjoint sample_hap sample_handle"
    by (simp add: delegate_keys_disjoint_def sample_hap_def)
  have n: "Accessory_serialize sample_hap (renamed_delegate (updateDisplayName sample_handle ''Desk'')) ''displayName''
       = Some (JString ''Desk'')"
    by (simp add: sample_hap_def renamed_delegate_def updateDisplayName_def)
  have f: "associatedPlugin sample_handle = JString ''x''" "associatedPlatform sample_handle = JString ''y''"
    "context sample_handle = JObject [(''foo'', JString ''bar'')]"
    by (simp_all add: sample_handle_def)
  have "fst (serialize sample_hap sample_handle) ''plugin'' = Some (associatedPlugin sample_handle)
        \<and> fst (serialize sample_hap sample_handle) ''platform'' = Some (associatedPlatform sample_handle)
        \<and> fst (serialize sample_hap sample_handle) ''context'' = Some (context sample_handle)"
    using serialize_record_shape [where env = sample_hap and h = sample_handle] d by blast
  moreover have "fst (serialize sample_hap (updateDisplayName sample_handle ''Desk'')) ''displayName''
        = Some (JString ''Desk'')"
    using serialize_record_shape [where env = sample_hap and h = "updateDisplayName sample_handle ''Desk''"
        and k = "''displayName''" and v = "JString ''Desk''"] n by blast
  ultimately show ?thesis
    using d n f by simp
qed

section \<open>C8: the initialization contract\<close>

lemma import_main_initializer:
  "import_main env p h = (r, p', h') \<Longrightarrow>
   loadContext p' = loadContext p
   \<and> (case r of Inr u \<Rightarrow> pluginInitializer p' \<noteq> None | Inl e \<Rightarrow> p' = p)"
  by (auto simp: import_main_def Let_def split: sum.splits module_exports.splits option.splits if_splits)

lemma load_initializer:
  "load env p h = (r, p', h') \<Longrightarrow>
   loadContext p' = None
   \<and> (case r of Inr u \<Rightarrow> pluginInitializer p' \<noteq> None | Inl e \<Rightarrow> pluginInitializer p' = pluginInitializer p)"
  unfolding load_def
  by (auto simp: Let_def split: option.splits if_splits sum.splits dest!: import_main_initializer)

text \<open>
  C8: \<open>initialize\<close> on a descriptor without initializer (any freshly constructed one, and
  any such descriptor after a \<open>load\<close> that failed) raises the usage error and leaves the
  descriptor and the host as they were; after a \<open>load\<close> that returned, the descriptor has
  an initializer, and \<open>initialize api\<close> is the call of that initializer on \<open>api\<close>: its value
  or its failure, and whatever it did to the descriptor and the host.
\<close>

theorem initialize_contract:
  "(pluginInitializer p = None \<longrightarrow> initialize env p api h = (Inl not_loaded, p, h))
   \<and> (Plugin_new name path packageJSON scp = Inr q \<longrightarrow> initialize env q api h = (Inl not_loaded, q, h))
   \<and> (pluginInitializer p = None \<and> load env p h = (Inl e, p', h') \<longrightarrow>
        initialize env p' api k = (Inl not_loaded, p', k))
   \<and> (load env p h = (Inr (), p', h') \<longrightarrow>
        (\<exists>f. pluginInitializer p' = Some f \<and> initialize env p' api k = call env f api p' k))
   \<and> (pluginInitializer p = Some f \<longrightarrow> initialize env p api h = call env f api p h)"
proof (intro conjI impI)
  show "initialize env p api h = (Inl not_loaded, p, h)" if "pluginInitializer p = None"
    using that by (simp add: initialize_def)
  show "initialize env q api h = (Inl not_loaded, q, h)" if "Plugin_new name path packageJSON scp = Inr q"
    using Plugin_new_fresh [OF that] by (simp add: initialize_def)
  show "initialize env p' api k = (Inl not_loaded, p', k)"
    if "pluginInitializer p = None \<and> load env p h = (Inl e, p', h')"
    using that load_initializer [of env p h "Inl e" p' h'] by (simp add: initialize_def)
  show "\<exists>f. pluginInitializer p' = Some f \<and> initialize env p' api k = call env f api p' k"
    if "load env p h = (Inr (), p', h')"
    using load_initializer [OF that] by (auto simp: initialize_def)
  show "initialize env p api h = call env f api p h" if "pluginInitializer p = Some f"
    using that by (simp add: initialize_def)
qed

text \<open>
  C8 on the sample descriptor: before \<open>load\<close>, and after it with an initializer that
  returns a value for one argument and fails for another.
\<close>

theorem initialize_contract_witness:
  "pluginInitializer sample_plugin = None
   \<and> initialize sample_env sample_plugin 5 sample_host = (Inl not_loaded, sample_plugin, sample_host)
   \<and> fst (load sample_env sample_plugin sample_host) = Inr ()
   \<and> pluginInitializer (fst (snd (load sample_env sample_plugin sample_host))) = Some 7
   \<and> fst (initialize sample_env (fst (snd (load sample_env sample_plugin sample_host))) 5 sample_host) = Inr 12
   \<and> fst (initialize sample_env (fst (snd (load sample_env sample_plugin sample_host))) 0 sample_host)
       = Inl (Error ''no api'')"
proof -
  let ?p' = "sample_plugin\<lparr>loadContext := None, pluginInitializer := Some 7\<rparr>"
  let ?h' = "\<lparr>log_lines = [], imported = [''/plugins/homebridge-lamp/./dist/index.js'']\<rparr>"
  have none: "pluginInitializer sample_plugin = None"
    by (simp add: sample_plugin_def)
  have c: "call sample_env 7 5 ?p' sample_host = (Inr 12, ?p', sample_host)"
    "call sample_env 7 0 ?p' sample_host = (Inl (Error ''no api''), ?p', sample_host)"
    by (simp_all add: sample_env_def)
  show ?thesis
    using initialize_contract [where env = sample_env and p = sample_plugin and h = sample_host
        and p' = ?p' and h' = ?h' and api = 5 and k = sample_host and f = 7
        and name = "''homebridge-lamp''" and path = "''/plugins/homebridge-lamp''"
        and packageJSON = sample_package and scp = None and q = sample_plugin]
      initialize_contract [where env = sample_env and p = sample_plugin and h = sample_host
        and p' = ?p' and h' = ?h' and api = 0 and k = sample_host]
      none c sample_load sample_plugin_constructed
    by auto
qed

section \<open>C9: the lifetime of the load context\<close>

text \<open>
  C9, as the claim states it, fails: the context is not discarded after the extraction of
  the initializer but in the third line of \<open>load\<close>, before the version gate. On a
  descriptor without engine requirement \<open>load\<close> fails at the gate, imports nothing and
  extracts no initializer, and the context is gone all the same.
\<close>

theorem load_context_discarded_early:
  "loadContext bare_plugin \<noteq> None
   \<and> fst (load sample_env bare_plugin sample_host) = Inl (missing_engine bare_plugin)
   \<and> pluginInitializer (fst (snd (load sample_env bare_plugin sample_host))) = None
   \<and> \<not> (loadContext (fst (snd (load sample_env bare_plugin sample_host))) = None
         \<longrightarrow> imported (snd (snd (load sample_env bare_plugin sample_host))) \<noteq> imported sample_host)"
  by (simp add: load_def bare_plugin_def sample_plugin_def engine_def truthy_def missing_engine_def Let_def)

text \<open>
  C9, amended: the constructor sets the load context; \<open>load\<close> discards it as its first act,
  before the version gate and the import, so that it is absent after every call of
  \<open>load\<close>, returned or failed (a call that fails at the gate has discarded it and done
  nothing else); a further call of \<open>load\<close> on the descriptor finds no context and fails on
  the assertion, changing nothing.
\<close>

theorem load_context_lifetime:
  "(Plugin_new name path packageJSON scp = Inr q \<longrightarrow> loadContext q \<noteq> None)
   \<and> loadContext (fst (snd (load env p h))) = None
   \<and> load env (fst (snd (load env p h))) k = (Inl illegal_state, fst (snd (load env p h)), k)
   \<and> (loadContext p = Some ctx \<and> \<not> truthy (engine ctx ''homebridge'') \<longrightarrow>
        load env p h = (Inl (missing_engine p), p\<lparr>loadContext := None\<rparr>, h))"
proof (intro conjI impI)
  show "loadContext q \<noteq> None" if "Plugin_new name path packageJSON scp = Inr q"
    using Plugin_new_fresh [OF that] by simp
  obtain r p1 h1 where l: "load env p h = (r, p1, h1)"
    by (cases "load env p h") auto
  show n: "loadContext (fst (snd (load env p h))) = None"
    using load_initializer [OF l] l by simp
  show "load env (fst (snd (load env p h))) k = (Inl illegal_state, fst (snd (load env p h)), k)"
    using n by (simp add: load_def)
  show "load env p h = (Inl (missing_engine p), p\<lparr>loadContext := None\<rparr>, h)"
    if "loadContext p = Some ctx \<and> \<not> truthy (engine ctx ''homebridge'')"
    using that by (simp add: load_def missing_engine_def)
qed

text \<open>The amended C9 on a descriptor whose load returns and on one whose load fails at the gate.\<close>

theorem load_context_lifetime_witness:
  "Plugin_new ''homebridge-lamp'' ''/plugins/homebridge-lamp'' sample_package None = Inr sample_plugin
   \<and> loadContext sample_plugin \<noteq> None
   \<and> fst (load sample_env sample_plugin sample_host) = Inr ()
   \<and> loadContext (fst (snd (load sample_env sample_plugin sample_host))) = None
   \<and> fst (load sample_env (fst (snd (load sample_env sample_plugin sample_host))) sample_host) = Inl illegal_state
   \<and> loadContext bare_plugin = Some \<lparr>engines = None, dependencies = None\<rparr>
   \<and> \<not> truthy (engine \<lparr>engines = None, dependencies = None\<rparr> ''homebridge'')
   \<and> load sample_env bare_plugin sample_host
       = (Inl (missing_engine bare_plugin), bare_plugin\<lparr>loadContext := None\<rparr>, sample_host)"
proof -
  have a: "loadContext bare_plugin = Some \<lparr>engines = None, dependencies = None\<rparr>"
    by (simp add: bare_plugin_def)
  have b: "\<not> truthy (engine \<lparr>engines = None, dependencies = None\<rparr> ''homebridge'')"
    by (simp add: engine_def truthy_def)
  show ?thesis
    using load_context_lifetime [where name = "''homebridge-lamp''" and path = "''/plugins/homebridge-lamp''"
        and packageJSON = sample_package and scp = None and q = sample_plugin and env = sample_env
        and p = sample_plugin and h = sample_host and k = sample_host]
      load_context_lifetime [where env = sample_env and p = bare_plugin and h = sample_host
        and ctx = "\<lparr>engines = None, dependencies = None\<rparr>"]
      a b sample_plugin_constructed sample_load
    by simp
qed

section \<open>C10: the injection seam\<close>

lemma deserialize_slot:
  "injectedAccessory (snd (deserialize env st json))
     = (case Accessory_deserialize env json of Inl e \<Rightarrow> injectedAccessory st | Inr a \<Rightarrow> None)"
  by (auto simp: deserialize_def PlatformAccessory_new_def Let_def split: sum.splits)

lemma deserialize_delegate:
  "map_sum id associatedHAPAccessory (fst (deserialize env st json)) = Accessory_deserialize env json"
  by (auto simp: deserialize_def PlatformAccessory_new_def Let_def split: sum.splits)

lemma after_call_slot:
  "injectedAccessory st = None \<Longrightarrow> injectedAccessory (after_call env st c) = None"
  by (cases c) (simp_all add: deserialize_slot split: sum.splits)

lemma after_calls_slot:
  "injectedAccessory st = None \<Longrightarrow> injectedAccessory (after_calls env st calls) = None"
proof (induction calls arbitrary: st)
  case Nil
  then show ?case by simp
next
  case (Cons c calls)
  then show ?case using after_call_slot by simp
qed

text \<open>
  C10: the slot, once empty, is empty after every sequence of constructions and
  deserializations, whether they return or throw. \<open>deserialize\<close> leaves it empty whenever
  it got as far as occupying it, and untouched when the delegate's \<open>deserialize\<close> threw
  before; the handle it returns has adopted the delegate that was rebuilt from the
  record, and it fails only when that rebuilding fails, so no fresh delegate is made.
  A handle constructed while the slot is empty has the delegate that \<open>new Accessory\<close> makes
  from its display name and UUID (with the category written in when one is given), and
  the construction fails when \<open>new Accessory\<close> does.
\<close>

theorem injection_seam:
  "(injectedAccessory st = None \<longrightarrow> injectedAccessory (after_calls env st calls) = None)
   \<and> injectedAccessory (snd (deserialize env st json))
       = (case Accessory_deserialize env json of Inl e \<Rightarrow> injectedAccessory st | Inr a \<Rightarrow> None)
   \<and> map_sum id associatedHAPAccessory (fst (deserialize env st json)) = Accessory_deserialize env json
   \<and> (injectedAccessory st = None \<longrightarrow>
        map_sum id associatedHAPAccessory (PlatformAccessory_new env st name uuid cat)
          = map_sum id (\<lambda>a. case cat of Some c \<Rightarrow> (if c \<noteq> 0 then a\<lparr>acc_category := c\<rparr> else a) | None \<Rightarrow> a)
              (new_Accessory env name uuid))"
proof (intro conjI impI)
  show "injectedAccessory (after_calls env st calls) = None" if "injectedAccessory st = None"
    using after_calls_slot [OF that] .
  show "injectedAccessory (snd (deserialize env st json))
       = (case Accessory_deserialize env json of Inl e \<Rightarrow> injectedAccessory st | Inr a \<Rightarrow> None)"
    by (rule deserialize_slot)
  show "map_sum id associatedHAPAccessory (fst (deserialize env st json)) = Accessory_deserialize env json"
    by (rule deserialize_delegate)
  show "map_sum id associatedHAPAccessory (PlatformAccessory_new env st name uuid cat)
          = map_sum id (\<lambda>a. case cat of Some c \<Rightarrow> (if c \<noteq> 0 then a\<lparr>acc_category := c\<rparr> else a) | None \<Rightarrow> a)
              (new_Accessory env name uuid)"
    if "injectedAccessory st = None"
    using that by (auto simp: PlatformAccessory_new_def Let_def split: sum.splits option.splits)
qed

text \<open>
  C10 from the empty slot: a rehydration, a construction with a category and a
  rehydration that fails, in sequence.
\<close>

theorem injection_seam_witness:
  "injectedAccessory no_injection = None
   \<and> injectedAccessory (after_calls sample_hap no_injection
        [Deserialize sample_record, Construct ''Fan'' ''uuid-2'' (Some 3), Deserialize Map.empty]) = None
   \<and> map_sum id associatedHAPAccessory (fst (deserialize sample_hap no_injection sample_record)) = Inr sample_delegate
   \<and> map_sum id associatedHAPAccessory (PlatformAccessory_new sample_hap no_injection ''Fan'' ''uuid-2'' (Some 3))
       = Inr \<lparr>acc_displayName = ''Fan'', acc_UUID = ''uuid-2'', acc_category = 3, acc_services = [], acc_internal = JNull\<rparr>"
proof -
  have e: "injectedAccessory no_injection = None"
    by (simp add: no_injection_def)
  have n: "new_Accessory sample_hap ''Fan'' ''uuid-2''
      = Inr \<lparr>acc_displayName = ''Fan'', acc_UUID = ''uuid-2'', acc_category = 1, acc_services = [], acc_internal = JNull\<rparr>"
    by (simp add: sample_hap_def)
  show ?thesis
    using injection_seam [where st = no_injection and env = sample_hap and json = sample_record
        and calls = "[Deserialize sample_record, Construct ''Fan'' ''uuid-2'' (Some 3), Deserialize Map.empty]"
        and name = "''Fan''" and uuid = "''uuid-2''" and cat = "Some 3"]
      e n sample_record_delegate
    by simp
qed

end
